theory Spec2Isabelle
  imports Complex_Main
begin

section \<open>Numeric model\<close>

text \<open>
  The mesher computes with numpy arrays of float64.  The embedding idealises float64 as
  \<^typ>\<open>real\<close>: an array of shape \<open>(n,)\<close> is a \<^typ>\<open>real list\<close>, an array of shape
  \<open>(n, 3)\<close> is a list of triples, and every elementwise numpy operation is a map over
  the list.  Statements that the specification makes "within floating tolerance" are proved
  as exact equalities over the reals.  Python exceptions are values of type \<open>error\<close>.
\<close>

type_synonym vec3 = "real \<times> real \<times> real"

type_synonym mat3 = "vec3 \<times> vec3 \<times> vec3"

datatype error = ValueError | IndexError | AttributeError | ZeroDivisionError

fun vadd :: "vec3 \<Rightarrow> vec3 \<Rightarrow> vec3" where
  "vadd (a, b, c) (d, e, f) = (a + d, b + e, c + f)"

fun vscale :: "real \<Rightarrow> vec3 \<Rightarrow> vec3" where
  "vscale k (a, b, c) = (k * a, k * b, k * c)"

fun dot :: "vec3 \<Rightarrow> vec3 \<Rightarrow> real" where
  "dot (a, b, c) (d, e, f) = a * d + b * e + c * f"

fun mat_vec :: "mat3 \<Rightarrow> vec3 \<Rightarrow> vec3" where
  "mat_vec (r1, r2, r3) v = (dot r1 v, dot r2 v, dot r3 v)"

fun columns :: "mat3 \<Rightarrow> mat3" where
  "columns ((a, b, c), (d, e, f), (g, h, i)) = ((a, d, g), (b, e, h), (c, f, i))"

text \<open>The numpy operator \<open>A @ B\<close> on 3x3 matrices (rows of \<open>A\<close> against columns of \<open>B\<close>).\<close>

fun matmul :: "mat3 \<Rightarrow> mat3 \<Rightarrow> mat3" where
  "matmul (r1, r2, r3) B =
     (case columns B of (c1, c2, c3) \<Rightarrow>
        ((dot r1 c1, dot r1 c2, dot r1 c3),
         (dot r2 c1, dot r2 c2, dot r2 c3),
         (dot r3 c1, dot r3 c2, dot r3 c3)))"

text \<open>
  The quotient \<open>a / b\<close> of two Python floats raises ZeroDivisionError for \<open>b = 0\<close>, and
  an elementwise numpy operation on two arrays of one length is a map over the pairs.
\<close>

definition py_div :: "real \<Rightarrow> real \<Rightarrow> error + real" where
  "py_div a b = (if b = 0 then Inl ZeroDivisionError else Inr (a / b))"

definition arr2 :: "(real \<Rightarrow> real \<Rightarrow> real) \<Rightarrow> real list \<Rightarrow> real list \<Rightarrow> real list" where
  "arr2 f a b = map (\<lambda>(u, v). f u v) (zip a b)"

definition radians :: "real \<Rightarrow> real" where
  "radians d = d * pi / 180"

text \<open>
  \<open>np.linspace(start, stop, num)\<close> with the default \<open>endpoint=True\<close>: a negative \<open>num\<close>
  raises ValueError; otherwise the samples are \<open>start + i * step\<close> with
  \<open>step = (stop - start) / (num - 1)\<close>, and for \<open>num > 1\<close> the last sample is overwritten
  with \<open>stop\<close>.  For \<open>num = 1\<close> the only sample is \<open>start\<close>.
\<close>

definition linspace :: "real \<Rightarrow> real \<Rightarrow> int \<Rightarrow> error + real list" where
  "linspace start stop num =
     (if num < 0 then Inl ValueError
      else
        let n = nat num;
            step = (stop - start) / real (n - 1);
            ys = map (\<lambda>i. start + real i * step) [0..<n]
        in Inr (if 1 < n then ys[n - 1 := stop] else ys))"

section \<open>utils/helpers.py\<close>

definition Rx :: "real \<Rightarrow> mat3" where
  "Rx phi = ((1, 0, 0), (0, cos phi, - sin phi), (0, sin phi, cos phi))"

definition Ry :: "real \<Rightarrow> mat3" where
  "Ry theta = ((cos theta, 0, sin theta), (0, 1, 0), (- sin theta, 0, cos theta))"

definition Rz :: "real \<Rightarrow> mat3" where
  "Rz psi = ((cos psi, - sin psi, 0), (sin psi, cos psi, 0), (0, 0, 1))"

definition get_rotation_matrix :: "real \<Rightarrow> real \<Rightarrow> real \<Rightarrow> mat3" where
  "get_rotation_matrix roll pitch yaw =
     (let phi = radians roll; theta = radians pitch; psi = radians yaw
      in matmul (matmul (Rz psi) (Ry theta)) (Rx phi))"

section \<open>geometry/components.py\<close>

text \<open>
  The fields of \<open>WingStation\<close> are \<open>y, chord, x, z, twist, m, p, t, r\<close> in the source; they
  carry the prefix \<open>st_\<close> here because a record field is a global constant.  The
  constructor unpacks \<open>airfoil_params\<close>: fewer than three entries raise ValueError, a
  missing fourth entry gives \<open>r = 0\<close>, and \<open>None\<close> selects NACA 0012.
\<close>

record WingStation =
  st_y :: real
  st_chord :: real
  st_x :: real
  st_z :: real
  st_twist :: real
  st_m :: real
  st_p :: real
  st_t :: real
  st_r :: real

definition new_WingStation ::
  "real \<Rightarrow> real \<Rightarrow> real \<Rightarrow> real \<Rightarrow> real \<Rightarrow> real list option \<Rightarrow> error + WingStation" where
  "new_WingStation y_pos chord x_leading_edge z_pos twist airfoil_params =
     (let params = (case airfoil_params of None \<Rightarrow> [0, 0, 0.12, 0] | Some ps \<Rightarrow> ps)
      in case take 3 params of
           [m, p, t] \<Rightarrow>
             Inr \<lparr>st_y = y_pos, st_chord = chord, st_x = x_leading_edge, st_z = z_pos,
                  st_twist = twist, st_m = m, st_p = p, st_t = t,
                  st_r = (if 3 < length params then params ! 3 else 0)\<rparr>
         | _ \<Rightarrow> Inl ValueError)"

record LiftingSurface =
  ls_name :: string
  ls_stations :: "WingStation list"
  ls_position :: vec3
  ls_orientation :: vec3
  ls_mirrored :: bool

definition new_LiftingSurface ::
  "string \<Rightarrow> WingStation list \<Rightarrow> vec3 option \<Rightarrow> vec3 option \<Rightarrow> bool \<Rightarrow> LiftingSurface" where
  "new_LiftingSurface name stations position orientation mirrored =
     \<lparr>ls_name = name, ls_stations = stations,
      ls_position = (case position of None \<Rightarrow> (0, 0, 0) | Some v \<Rightarrow> v),
      ls_orientation = (case orientation of None \<Rightarrow> (0, 0, 0) | Some v \<Rightarrow> v),
      ls_mirrored = mirrored\<rparr>"

record Fuselage =
  fu_name :: string
  fu_profile :: "(real \<times> real) list"
  fu_position :: vec3

record Vehicle =
  ve_name :: string
  ve_surfaces :: "LiftingSurface list"
  ve_fuselage :: "Fuselage option"

section \<open>Meshes\<close>

text \<open>
  A pyvista \<open>StructuredGrid\<close> is its flat point array together with its dimensions; the
  point with grid index \<open>(i, j, k)\<close> is stored at \<open>i + d0 * (j + d1 * k)\<close>, so the first
  dimension varies fastest.  The rigid motions of pyvista act on every point:
  \<open>rotate_x\<close>, \<open>rotate_y\<close> and \<open>rotate_z\<close> turn the mesh by an angle in degrees about the
  fixed global axis through the origin, \<open>translate\<close> adds a vector.
\<close>

record StructuredGrid =
  grid_points :: "vec3 list"
  grid_dimensions :: "nat \<times> nat \<times> nat"

definition rotate_x :: "real \<Rightarrow> vec3 \<Rightarrow> vec3" where
  "rotate_x angle v = mat_vec (Rx (radians angle)) v"

definition rotate_y :: "real \<Rightarrow> vec3 \<Rightarrow> vec3" where
  "rotate_y angle v = mat_vec (Ry (radians angle)) v"

definition rotate_z :: "real \<Rightarrow> vec3 \<Rightarrow> vec3" where
  "rotate_z angle v = mat_vec (Rz (radians angle)) v"

definition grid_map :: "(vec3 \<Rightarrow> vec3) \<Rightarrow> StructuredGrid \<Rightarrow> StructuredGrid" where
  "grid_map f g = g\<lparr>grid_points := map f (grid_points g)\<rparr>"

section \<open>geometry/mesher.py\<close>

record StructuredMesher =
  chord_res :: int
  span_res :: int
  fus_rad_res :: int
  fus_long_res :: int

definition new_StructuredMesher :: StructuredMesher where
  "new_StructuredMesher =
     \<lparr>chord_res = 30, span_res = 15, fus_rad_res = 36, fus_long_res = 50\<rparr>"

text \<open>
  \<open>_transform_grid\<close>: a \<open>LiftingSurface\<close> always has both attributes, so both branches
  run: the three rotations in the order roll, pitch, yaw, then the translation.
\<close>

definition transform_grid :: "StructuredGrid \<Rightarrow> LiftingSurface \<Rightarrow> StructuredGrid" where
  "transform_grid grid surface =
     (case ls_orientation surface of (roll, pitch, yaw) \<Rightarrow>
        grid_map (vadd (ls_position surface))
          (grid_map (rotate_z yaw) (grid_map (rotate_y pitch) (grid_map (rotate_x roll) grid))))"

subsection \<open>Airfoil profile\<close>

text \<open>
  \<open>_get_airfoil_coords\<close>.  \<open>x\<close> is the half-cosine spacing and \<open>yt\<close> the thickness with its
  last entry forced to zero (the assignment \<open>yt[-1] = 0.0\<close> raises IndexError on an empty
  array).  The parameters \<open>m\<close> and \<open>p\<close> are Python floats, so under \<open>m > 0 and p > 0\<close> the
  four quotients \<open>m / p**2\<close>, \<open>2 * m / p**2\<close>, \<open>m / (1 - p)**2\<close> and \<open>2 * m / (1 - p)**2\<close> are
  evaluated in this order, each before its masked assignment, and a zero divisor raises
  ZeroDivisionError even when its mask selects nothing.  The reflex term is added to \<open>yc\<close>
  only.  The function returns \<open>coords\<close>; the record \<open>airfoil\<close> holds its local arrays at
  that point.
\<close>

definition airfoil_x :: "real list \<Rightarrow> real list" where
  "airfoil_x beta = map (\<lambda>b. (1 - cos b) / 2) beta"

definition thickness :: "real \<Rightarrow> real \<Rightarrow> real" where
  "thickness t_max x =
     5 * t_max * (0.2969 * sqrt x - 0.1260 * x - 0.3516 * x ^ 2 + 0.2843 * x ^ 3
                  + (- 0.1015) * x ^ 4)"

definition airfoil_yt :: "real \<Rightarrow> real list \<Rightarrow> real list" where
  "airfoil_yt t_max x = (map (thickness t_max) x)[length x - 1 := 0]"

definition camber_block :: "real \<Rightarrow> real \<Rightarrow> real list \<Rightarrow> error + real list \<times> real list" where
  "camber_block m p x =
     (if 0 < m \<and> 0 < p then
        (case py_div m (p ^ 2) of
           Inl e \<Rightarrow> Inl e
         | Inr q1 \<Rightarrow>
             (case py_div (2 * m) (p ^ 2) of
                Inl e \<Rightarrow> Inl e
              | Inr q2 \<Rightarrow>
                  (case py_div m ((1 - p) ^ 2) of
                     Inl e \<Rightarrow> Inl e
                   | Inr q3 \<Rightarrow>
                       (case py_div (2 * m) ((1 - p) ^ 2) of
                          Inl e \<Rightarrow> Inl e
                        | Inr q4 \<Rightarrow>
                            Inr (map (\<lambda>xi. if xi \<le> p then q1 * (2 * p * xi - xi ^ 2)
                                           else q3 * ((1 - 2 * p) + 2 * p * xi - xi ^ 2)) x,
                                 map (\<lambda>xi. if xi \<le> p then q2 * (p - xi) else q4 * (p - xi))
                                   x)))))
      else Inr (map (\<lambda>_. 0) x, map (\<lambda>_. 0) x))"

text \<open>
  \<open>np.concatenate([u[::-1], l[1:]])\<close> followed by the trailing-edge closure: the mean of
  the first and the last entry is written to the first and then to the last position.
\<close>

definition te_closure :: "real list \<Rightarrow> real list \<Rightarrow> real list" where
  "te_closure u l =
     (let loop = rev u @ drop 1 l;
          te = (loop ! 0 + loop ! (length loop - 1)) / 2
      in (loop[0 := te])[length loop - 1 := te])"

record airfoil =
  af_x :: "real list"
  af_yt :: "real list"
  af_yc :: "real list"
  af_dyc_dx :: "real list"
  af_xu :: "real list"
  af_zu :: "real list"
  af_xl :: "real list"
  af_zl :: "real list"
  af_coords :: "vec3 list"

definition airfoil_arrays :: "StructuredMesher \<Rightarrow> WingStation \<Rightarrow> error + airfoil" where
  "airfoil_arrays self station =
     (case linspace 0 pi (chord_res self) of
        Inl e \<Rightarrow> Inl e
      | Inr beta \<Rightarrow>
          let x = airfoil_x beta in
          if x = [] then Inl IndexError
          else
            let yt = airfoil_yt (st_t station) x in
            case camber_block (st_m station) (st_p station) x of
              Inl e \<Rightarrow> Inl e
            | Inr (yc0, dyc_dx) \<Rightarrow>
                let r = st_r station;
                    yc = (if r \<noteq> 0
                          then arr2 (+) yc0 (map (\<lambda>xi. r * (xi ^ 3 - xi ^ 2) * 4) x)
                          else yc0);
                    theta = map arctan dyc_dx;
                    xu = arr2 (-) x (arr2 (*) yt (map sin theta));
                    zu = arr2 (+) yc (arr2 (*) yt (map cos theta));
                    xl = arr2 (+) x (arr2 (*) yt (map sin theta));
                    zl = arr2 (-) yc (arr2 (*) yt (map cos theta));
                    x_loop = te_closure xu xl;
                    z_loop = te_closure zu zl
                in Inr \<lparr>af_x = x, af_yt = yt, af_yc = yc, af_dyc_dx = dyc_dx,
                        af_xu = xu, af_zu = zu, af_xl = xl, af_zl = zl,
                        af_coords = map (\<lambda>(xv, zv). (xv, 0, zv)) (zip x_loop z_loop)\<rparr>)"

definition get_airfoil_coords :: "StructuredMesher \<Rightarrow> WingStation \<Rightarrow> error + vec3 list" where
  "get_airfoil_coords self station =
     (case airfoil_arrays self station of
        Inl e \<Rightarrow> Inl e
      | Inr a \<Rightarrow> Inr (af_coords a))"

subsection \<open>Station transform and loft\<close>

text \<open>
  \<open>_position_profile\<close>.  \<open>x_vals\<close> and \<open>z_vals\<close> are views of columns 0 and 2 of
  \<open>new_coords\<close>, so the assignment to column 0 is visible through \<open>x_vals\<close> when column 2 is
  computed: the new \<open>z\<close> is built from the already rotated \<open>x\<close>.
\<close>

definition position_profile :: "vec3 list \<Rightarrow> WingStation \<Rightarrow> vec3 list" where
  "position_profile coords station =
     (let theta = radians (- st_twist station); c = cos theta; s = sin theta
      in map (\<lambda>v. case vscale (st_chord station) v of
                     (x, y, z) \<Rightarrow>
                       let x' = x * c - z * s;
                           z' = x' * s + z * c
                       in (x' + st_x station, y + st_y station, z' + st_z station))
             coords)"

text \<open>
  An array of shape \<open>(k, n, 3)\<close> is the pair of its row width \<open>n\<close> and its list of \<open>k\<close>
  rows; the width is kept because it is part of the shape even when \<open>k = 0\<close>.
\<close>

type_synonym ndarray3 = "nat \<times> vec3 list list"

definition lerp :: "real \<Rightarrow> vec3 \<Rightarrow> vec3 \<Rightarrow> vec3" where
  "lerp t a b = vadd (vscale (1 - t) a) (vscale t b)"

definition loft_segment :: "StructuredMesher \<Rightarrow> WingStation \<Rightarrow> WingStation \<Rightarrow> error + ndarray3" where
  "loft_segment self st1 st2 =
     (case get_airfoil_coords self st1 of
        Inl e \<Rightarrow> Inl e
      | Inr af1 \<Rightarrow>
          (case get_airfoil_coords self st2 of
             Inl e \<Rightarrow> Inl e
           | Inr af2 \<Rightarrow>
               let p1 = position_profile af1 st1; p2 = position_profile af2 st2
               in case linspace 0 1 (span_res self) of
                    Inl e \<Rightarrow> Inl e
                  | Inr t \<Rightarrow>
                      Inr (length p1, map (\<lambda>ti. map (\<lambda>(a, b). lerp ti a b) (zip p1 p2)) t)))"

text \<open>
  The loop of \<open>_mesh_surface\<close> over consecutive station pairs; \<open>i\<close> is the loop index, and
  every segment but the first loses its first row.
\<close>

fun loft_stations :: "StructuredMesher \<Rightarrow> nat \<Rightarrow> WingStation list \<Rightarrow> error + ndarray3 list" where
  "loft_stations self i (st_in # st_out # rest) =
     (case loft_segment self st_in st_out of
        Inl e \<Rightarrow> Inl e
      | Inr (w, rows) \<Rightarrow>
          (case loft_stations self (Suc i) (st_out # rest) of
             Inl e \<Rightarrow> Inl e
           | Inr segs \<Rightarrow> Inr ((w, if 0 < i then drop 1 rows else rows) # segs)))"
| "loft_stations self i _ = Inr []"

text \<open>\<open>np.concatenate(all_points, axis=0)\<close>: an empty list of arrays raises ValueError.\<close>

definition concatenate :: "ndarray3 list \<Rightarrow> error + ndarray3" where
  "concatenate all_points =
     (case all_points of
        [] \<Rightarrow> Inl ValueError
      | (w, _) # _ \<Rightarrow> Inr (w, concat (map snd all_points)))"

subsection \<open>Solids\<close>

text \<open>
  A pyvista \<open>PolyData\<close> is its point array and its polygon faces, each face the list of
  its vertex indices.  \<open>reflect((0,1,0), point=(0,0,0))\<close> negates every \<open>y\<close>, and
  \<open>flip_faces\<close> reverses the vertex order of every face; assigning to \<open>faces\<close> replaces the
  polygon faces.  What the library builds or computes is a parameter of the model, the
  record \<open>pyvista\<close>: the constructor \<open>pv.PolyData(points)\<close> (\<open>new_PolyData\<close>), the sum
  \<open>a + b\<close> of two \<open>PolyData\<close> (\<open>poly_plus\<close>; the order of the cells and the merging of
  coincident points in the result are the library's), \<open>extract_surface\<close>,
  \<open>triangulate().clean()\<close>, the truth value of a mesh in \<open>if block\<close>, the chain
  \<open>triangulate().subdivide(2)\<close>, \<open>clean\<close>, \<open>compute_normals\<close> of \<open>make_solid\<close> (\<open>refine\<close>),
  \<open>boolean_union\<close>, and the sum of two refined solids (\<open>merge\<close>).
\<close>

record PolyData =
  poly_points :: "vec3 list"
  poly_faces :: "nat list list"

datatype Mesh = Grid StructuredGrid | Poly PolyData

record pyvista =
  new_PolyData :: "vec3 list \<Rightarrow> PolyData"
  poly_plus :: "PolyData \<Rightarrow> PolyData \<Rightarrow> PolyData"
  extract_surface :: "StructuredGrid \<Rightarrow> PolyData"
  triangulate_clean :: "PolyData \<Rightarrow> PolyData"
  truthy :: "Mesh \<Rightarrow> bool"
  refine :: "Mesh \<Rightarrow> Mesh"
  boolean_union :: "Mesh \<Rightarrow> Mesh \<Rightarrow> Mesh option"
  merge :: "Mesh \<Rightarrow> Mesh \<Rightarrow> Mesh"

definition negate_y :: "vec3 \<Rightarrow> vec3" where
  "negate_y v = (case v of (x, y, z) \<Rightarrow> (x, - y, z))"

definition reflect :: "PolyData \<Rightarrow> PolyData" where
  "reflect p = p\<lparr>poly_points := map negate_y (poly_points p)\<rparr>"

definition flip_faces :: "PolyData \<Rightarrow> PolyData" where
  "flip_faces p = p\<lparr>poly_faces := map rev (poly_faces p)\<rparr>"

text \<open>
  \<open>_add_cap\<close>: the cap is the \<open>PolyData\<close> of the ring points with the single face
  \<open>[n_pts, indices]\<close>, one polygon through all ring points in ring order, or in reversed
  order under \<open>flip\<close>; it is added to the body.
\<close>

definition add_cap :: "pyvista \<Rightarrow> PolyData \<Rightarrow> vec3 list \<Rightarrow> bool \<Rightarrow> PolyData" where
  "add_cap pv poly_body ring_points flip =
     (let n_pts = length ring_points;
          cap = new_PolyData pv ring_points;
          indices = [0..<n_pts];
          indices = (if flip then rev indices else indices);
          cap = cap\<lparr>poly_faces := [indices]\<rparr>
      in poly_plus pv poly_body cap)"

definition mean :: "real list \<Rightarrow> real" where
  "mean xs = sum_list xs / real (length xs)"

text \<open>The slices \<open>a[:n]\<close> and \<open>a[-n:]\<close> of Python; \<open>a[-0:]\<close> is the whole array.\<close>

definition first_n :: "nat \<Rightarrow> 'a list \<Rightarrow> 'a list" where
  "first_n n xs = take n xs"

definition last_n :: "nat \<Rightarrow> 'a list \<Rightarrow> 'a list" where
  "last_n n xs = (if n = 0 then xs else drop (length xs - n) xs)"

text \<open>
  The capping block of \<open>_mesh_surface\<close>, up to and excluding the final
  \<open>triangulate().clean()\<close>.
\<close>

definition cap_surface :: "pyvista \<Rightarrow> StructuredGrid \<Rightarrow> nat \<Rightarrow> PolyData" where
  "cap_surface pv grid n_chord =
     (let poly = extract_surface pv grid;
          root_pts = first_n n_chord (grid_points grid);
          root_y_avg = mean (map (\<lambda>v. fst (snd v)) root_pts);
          poly = (if \<bar>root_y_avg\<bar> > 1 / 1000 then add_cap pv poly root_pts True else poly);
          tip_pts = last_n n_chord (grid_points grid)
      in add_cap pv poly tip_pts False)"

definition mesh_surface :: "pyvista \<Rightarrow> StructuredMesher \<Rightarrow> LiftingSurface \<Rightarrow> bool \<Rightarrow> error + Mesh" where
  "mesh_surface pv self surface solid =
     (case loft_stations self 0 (ls_stations surface) of
        Inl e \<Rightarrow> Inl e
      | Inr all_points \<Rightarrow>
          (case concatenate all_points of
             Inl e \<Rightarrow> Inl e
           | Inr (n_chord, rows) \<Rightarrow>
               let n_span = length rows;
                   grid = transform_grid
                            \<lparr>grid_points = concat rows, grid_dimensions = (n_chord, n_span, 1)\<rparr>
                            surface
               in if \<not> solid then Inr (Grid grid)
                  else Inr (Poly (triangulate_clean pv (cap_surface pv grid n_chord)))))"

subsection \<open>Fuselage\<close>

text \<open>
  \<open>np.interp(x, xp, fp)\<close> for sample points \<open>xp\<close> in ascending order (the invariant of a
  fuselage profile): constant outside the range of \<open>xp\<close>, linear between two neighbours.
  An empty \<open>xp\<close> raises ValueError.  The profile is the list of its \<open>(x, radius)\<close> rows.
\<close>

fun interp_from :: "real \<Rightarrow> (real \<times> real) list \<Rightarrow> real" where
  "interp_from x [] = 0"
| "interp_from x [(x0, r0)] = r0"
| "interp_from x ((x0, r0) # (x1, r1) # rest) =
     (if x1 \<le> x then interp_from x ((x1, r1) # rest)
      else (r1 - r0) / (x1 - x0) * (x - x0) + r0)"

definition interp :: "real list \<Rightarrow> (real \<times> real) list \<Rightarrow> error + real list" where
  "interp xs profile =
     (case profile of
        [] \<Rightarrow> Inl ValueError
      | (x0, r0) # _ \<Rightarrow> Inr (map (\<lambda>x. if x < x0 then r0 else interp_from x profile) xs))"

definition mesh_fuselage :: "pyvista \<Rightarrow> StructuredMesher \<Rightarrow> Fuselage \<Rightarrow> bool \<Rightarrow> error + Mesh" where
  "mesh_fuselage pv self fuselage solid =
     (let profile = fu_profile fuselage in
      if profile = [] then Inl IndexError
      else
        case linspace (fst (hd profile)) (fst (last profile)) (fus_long_res self) of
          Inl e \<Rightarrow> Inl e
        | Inr x_dense \<Rightarrow>
            (case interp x_dense profile of
               Inl e \<Rightarrow> Inl e
             | Inr r_dense \<Rightarrow>
                 (case linspace 0 (2 * pi) (fus_rad_res self) of
                    Inl e \<Rightarrow> Inl e
                  | Inr theta \<Rightarrow>
                      let grid_pts =
                            concat (map (\<lambda>j. map (\<lambda>t. (x_dense ! j, r_dense ! j * cos t,
                                                         r_dense ! j * sin t)) theta)
                                        [0..<length x_dense]);
                          grid = grid_map (vadd (fu_position fuselage))
                                   \<lparr>grid_points = grid_pts,
                                    grid_dimensions =
                                      (nat (fus_rad_res self), nat (fus_long_res self), 1)\<rparr>
                      in if \<not> solid then Inr (Grid grid)
                         else if r_dense = [] then Inl IndexError
                         else
                           let poly = extract_surface pv grid;
                               poly = (if r_dense ! 0 > 1 / 1000000
                                       then add_cap pv poly
                                              (first_n (nat (fus_rad_res self)) (grid_points grid))
                                              True
                                       else poly);
                               poly = (if last r_dense > 1 / 1000000
                                       then add_cap pv poly
                                              (last_n (nat (fus_rad_res self)) (grid_points grid))
                                              False
                                       else poly)
                           in Inr (Poly (triangulate_clean pv poly)))))"

subsection \<open>Vehicle assembly\<close>

definition mesh_map :: "(vec3 \<Rightarrow> vec3) \<Rightarrow> Mesh \<Rightarrow> Mesh" where
  "mesh_map f mesh =
     (case mesh of
        Grid g \<Rightarrow> Grid (grid_map f g)
      | Poly p \<Rightarrow> Poly (p\<lparr>poly_points := map f (poly_points p)\<rparr>))"

text \<open>
  The mirrored instance of \<open>mesh_vehicle\<close>.  In solid mode the copy is reflected and its
  faces are flipped (\<open>flip_faces\<close> exists on \<open>PolyData\<close> only).  In open mode the \<open>y\<close>
  column is negated and nothing else is done: the branch ends with a comment.
\<close>

definition vehicle_mirror :: "bool \<Rightarrow> Mesh \<Rightarrow> error + Mesh" where
  "vehicle_mirror solid mesh =
     (if solid then
        (case mesh of
           Poly p \<Rightarrow> Inr (Poly (flip_faces (reflect p)))
         | Grid g \<Rightarrow> Inl AttributeError)
      else Inr (mesh_map negate_y mesh))"

fun mesh_surfaces ::
  "pyvista \<Rightarrow> StructuredMesher \<Rightarrow> LiftingSurface list \<Rightarrow> bool \<Rightarrow> error + (string \<times> Mesh) list" where
  "mesh_surfaces pv self [] solid = Inr []"
| "mesh_surfaces pv self (surface # rest) solid =
     (case mesh_surface pv self surface solid of
        Inl e \<Rightarrow> Inl e
      | Inr mesh \<Rightarrow>
          (case (if ls_mirrored surface
                 then (case vehicle_mirror solid mesh of
                         Inl e \<Rightarrow> Inl e
                       | Inr mirrored_mesh \<Rightarrow>
                           Inr [(ls_name surface, mesh),
                                (ls_name surface @ ''_Mirror'', mirrored_mesh)])
                 else Inr [(ls_name surface, mesh)]) of
             Inl e \<Rightarrow> Inl e
           | Inr parts \<Rightarrow>
               (case mesh_surfaces pv self rest solid of
                  Inl e \<Rightarrow> Inl e
                | Inr others \<Rightarrow> Inr (parts @ others))))"

definition mesh_vehicle ::
  "pyvista \<Rightarrow> StructuredMesher \<Rightarrow> Vehicle \<Rightarrow> bool \<Rightarrow> error + (string \<times> Mesh) list" where
  "mesh_vehicle pv self vehicle solid =
     (case mesh_surfaces pv self (ve_surfaces vehicle) solid of
        Inl e \<Rightarrow> Inl e
      | Inr parts \<Rightarrow>
          (case ve_fuselage vehicle of
             None \<Rightarrow> Inr parts
           | Some fuselage \<Rightarrow>
               (case mesh_fuselage pv self fuselage solid of
                  Inl e \<Rightarrow> Inl e
                | Inr fus_mesh \<Rightarrow> Inr (parts @ [(fu_name fuselage, fus_mesh)]))))"

section \<open>gui/designer.py\<close>

subsection \<open>Rendering pipeline\<close>

text \<open>
  \<open>flip_winding\<close> acts on structured grids only.  The reshape to \<open>(d2, d1, d0, 3)\<close> raises
  ValueError unless the grid has \<open>d0 * d1 * d2\<close> points; reversing the third axis reverses
  every run of \<open>d0\<close> consecutive points.
\<close>

fun reverse_rows :: "nat \<Rightarrow> nat \<Rightarrow> 'a list \<Rightarrow> 'a list" where
  "reverse_rows d0 0 xs = []"
| "reverse_rows d0 (Suc k) xs = rev (take d0 xs) @ reverse_rows d0 k (drop d0 xs)"

definition flip_winding :: "Mesh \<Rightarrow> error + Mesh" where
  "flip_winding g =
     (case g of
        Grid sg \<Rightarrow>
          (case grid_dimensions sg of
             (d0, d1, d2) \<Rightarrow>
               if length (grid_points sg) \<noteq> d2 * d1 * d0 then Inl ValueError
               else Inr (Grid (sg\<lparr>grid_points := reverse_rows d0 (d2 * d1) (grid_points sg)\<rparr>)))
      | Poly p \<Rightarrow> Inr (Poly p))"

text \<open>
  The two geometry steps of \<open>process_component\<close>: the mirroring block and the
  user-requested flip.  The display preferences are attributes attached to the component;
  an absent attribute is \<open>None\<close>, read with the defaults of \<open>getattr\<close>.
\<close>

datatype component = Surface LiftingSurface | Body Fuselage

record preferences =
  solid_view :: "bool option"
  flip_normals :: "bool option"

definition getattr :: "'a option \<Rightarrow> 'a \<Rightarrow> 'a" where
  "getattr attribute fallback = (case attribute of None \<Rightarrow> fallback | Some v \<Rightarrow> v)"

definition mirror_part :: "bool \<Rightarrow> Mesh \<Rightarrow> error + Mesh" where
  "mirror_part use_solid grid =
     (if use_solid then
        (case grid of
           Poly p \<Rightarrow> Inr (Poly (flip_faces (reflect p)))
         | Grid g \<Rightarrow> Inl AttributeError)
      else flip_winding (mesh_map negate_y grid))"

definition user_flip :: "Mesh \<Rightarrow> error + Mesh" where
  "user_flip grid = (case grid of Poly p \<Rightarrow> Inr (Poly (flip_faces p)) | Grid g \<Rightarrow> flip_winding grid)"

definition process_component ::
  "pyvista \<Rightarrow> StructuredMesher \<Rightarrow> component \<Rightarrow> preferences \<Rightarrow> bool \<Rightarrow> error + Mesh" where
  "process_component pv mesher obj prefs mirrored =
     (let use_solid = getattr (solid_view prefs) False in
      case (case obj of
              Surface s \<Rightarrow> mesh_surface pv mesher s use_solid
            | Body f \<Rightarrow> mesh_fuselage pv mesher f use_solid) of
        Inl e \<Rightarrow> Inl e
      | Inr grid \<Rightarrow>
          (case (if mirrored then mirror_part use_solid grid else Inr grid) of
             Inl e \<Rightarrow> Inl e
           | Inr grid \<Rightarrow>
               if getattr (flip_normals prefs) True then user_flip grid else Inr grid))"

subsection \<open>Boolean union\<close>

text \<open>
  \<open>run_heavy_union\<close> returns the percent values it passed to \<open>progress_callback\<close>, in
  order, together with its result or the exception it re-raised.  \<open>int\<close> truncates towards
  zero.  A block that is not true in \<open>if block\<close> is skipped, as \<open>None\<close>; \<open>make_solid\<close> returns
  \<open>None\<close> for a mesh without points, and sorting by \<open>n_cells\<close> then raises AttributeError.
  The sort is stable and descending.  A failing \<open>boolean_union\<close> is \<open>None\<close> and is replaced
  by \<open>unified + solids[i]\<close>.
\<close>

definition py_int :: "real \<Rightarrow> int" where
  "py_int x = (if 0 \<le> x then \<lfloor>x\<rfloor> else \<lceil>x\<rceil>)"

definition n_points :: "Mesh \<Rightarrow> nat" where
  "n_points mesh = (case mesh of Grid g \<Rightarrow> length (grid_points g) | Poly p \<Rightarrow> length (poly_points p))"

definition n_cells :: "Mesh \<Rightarrow> nat" where
  "n_cells mesh =
     (case mesh of
        Grid g \<Rightarrow>
          (case grid_dimensions g of
             (d0, d1, d2) \<Rightarrow>
               if d0 = 0 \<or> d1 = 0 \<or> d2 = 0 then 0
               else max 1 (d0 - 1) * max 1 (d1 - 1) * max 1 (d2 - 1))
      | Poly p \<Rightarrow> length (poly_faces p))"

definition make_solid :: "pyvista \<Rightarrow> Mesh option \<Rightarrow> Mesh option" where
  "make_solid pv mesh =
     (case mesh of
        None \<Rightarrow> None
      | Some m \<Rightarrow> if n_points m = 0 then None else Some (refine pv m))"

fun refine_loop :: "pyvista \<Rightarrow> nat \<Rightarrow> nat \<Rightarrow> Mesh option list \<Rightarrow> int list \<times> Mesh option list" where
  "refine_loop pv count i [] = ([], [])"
| "refine_loop pv count i (block # rest) =
     (case refine_loop pv count (Suc i) rest of
        (percents, solids) \<Rightarrow>
          (case block of
             None \<Rightarrow> (percents, solids)
           | Some b \<Rightarrow>
               ((10 + py_int (real i / real count * 30)) # percents,
                make_solid pv block # solids)))"

fun merge_loop :: "pyvista \<Rightarrow> nat \<Rightarrow> nat \<Rightarrow> Mesh \<Rightarrow> Mesh list \<Rightarrow> int list \<times> Mesh" where
  "merge_loop pv n i unified [] = ([], unified)"
| "merge_loop pv n i unified (solid # rest) =
     (let unified' = (case boolean_union pv unified solid of
                        Some u \<Rightarrow> u
                      | None \<Rightarrow> merge pv unified solid)
      in case merge_loop pv n (Suc i) unified' rest of
           (percents, result) \<Rightarrow> ((40 + py_int (real i / real n * 50)) # percents, result))"

definition union_blocks :: "pyvista \<Rightarrow> Mesh option list \<Rightarrow> int list \<times> (error + Mesh)" where
  "union_blocks pv multiblock =
     (if multiblock = [] then ([], Inl ValueError)
      else
        case refine_loop pv (length multiblock) 0 multiblock of
          (percents, solids) \<Rightarrow>
            if solids = [] then (percents, Inl ValueError)
            else if None \<in> set solids then (percents, Inl AttributeError)
            else
              let solids = sort_key (\<lambda>m. - int (n_cells m)) (map the solids)
              in case merge_loop pv (length solids) 1 (hd solids) (tl solids) of
                   (later, unified) \<Rightarrow> (percents @ later, Inr unified))"

definition run_heavy_union ::
  "pyvista \<Rightarrow> StructuredMesher \<Rightarrow> Vehicle \<Rightarrow> int list \<times> (error + Mesh)" where
  "run_heavy_union pv mesher vehicle =
     (case mesh_vehicle pv mesher vehicle True of
        Inl e \<Rightarrow> ([10], Inl e)
      | Inr multiblock \<Rightarrow>
          (case union_blocks pv
                  (map (\<lambda>(name, block). if truthy pv block then Some block else None)
                     multiblock) of
             (percents, result) \<Rightarrow> (10 # percents, result)))"

section \<open>Auxiliary definitions\<close>

text \<open>
  Notions used to state the properties.  \<open>transform_point\<close> is what \<open>_transform_grid\<close> does
  to a single point, \<open>mirror_z\<close> the reflection of a point about \<open>z = 0\<close>, and \<open>face_coords\<close>
  reads a face of a solid as the list of its vertex coordinates.
\<close>

definition transform_point :: "LiftingSurface \<Rightarrow> vec3 \<Rightarrow> vec3" where
  "transform_point surface v =
     (case ls_orientation surface of (roll, pitch, yaw) \<Rightarrow>
        vadd (ls_position surface) (rotate_z yaw (rotate_y pitch (rotate_x roll v))))"

definition mirror_z :: "vec3 \<Rightarrow> vec3" where
  "mirror_z v = (case v of (x, y, z) \<Rightarrow> (x, y, - z))"

definition face_coords :: "PolyData \<Rightarrow> nat list \<Rightarrow> vec3 list" where
  "face_coords poly face = map (\<lambda>i. poly_points poly ! i) face"

text \<open>
  The spanwise slice \<open>j\<close> of a grid of dimensions \<open>(d0, d1, 1)\<close>: its points with grid
  index \<open>(i, j, 0)\<close> for \<open>i < d0\<close>, read off the point array by the storage rule
  \<open>i + d0 * j\<close>.
\<close>

definition grid_slice :: "StructuredGrid \<Rightarrow> nat \<Rightarrow> vec3 list" where
  "grid_slice g j =
     (case grid_dimensions g of
        (d0, d1, d2) \<Rightarrow> map (\<lambda>i. grid_points g ! (i + d0 * j)) [0..<d0])"

text \<open>
  The station transform in the words of the specification (4.2): scale all coordinates by
  the chord, rotate about the spanwise axis by minus the twist in degrees, translate by
  \<open>(x, y, z)\<close>.  The rotation turns \<open>(x, z)\<close> into \<open>(x c - z s, x s + z c)\<close> with \<open>c\<close> and \<open>s\<close>
  the cosine and the sine of the angle.
\<close>

definition station_transform_spec :: "vec3 list \<Rightarrow> WingStation \<Rightarrow> vec3 list" where
  "station_transform_spec loop station =
     (let theta = radians (- st_twist station)
      in map (\<lambda>v. case vscale (st_chord station) v of
                     (x, y, z) \<Rightarrow>
                       vadd (x * cos theta - z * sin theta, y, x * sin theta + z * cos theta)
                            (st_x station, st_y station, st_z station))
             loop)"

text \<open>
  Concrete inputs.  The two stations of Scenario A (NACA 0012, root at \<open>y = 0\<close>, tip at
  \<open>y = 5\<close>), a station with reflex and no camber, and a mesher of the smallest resolution
  at which the upper and the lower surface differ.
\<close>

definition scenario_A_root :: WingStation where
  "scenario_A_root = \<lparr>st_y = 0, st_chord = 2, st_x = 0, st_z = 0, st_twist = 0,
                       st_m = 0, st_p = 0, st_t = 0.12, st_r = 0\<rparr>"

definition scenario_A_tip :: WingStation where
  "scenario_A_tip = \<lparr>st_y = 5, st_chord = 1, st_x = 1, st_z = 0.5, st_twist = 0,
                      st_m = 0, st_p = 0, st_t = 0.12, st_r = 0\<rparr>"

definition reflex_station :: WingStation where
  "reflex_station = \<lparr>st_y = 0, st_chord = 1, st_x = 0, st_z = 0, st_twist = 0,
                      st_m = 0, st_p = 0, st_t = 0.12, st_r = 1\<rparr>"

definition coarse_mesher :: StructuredMesher where
  "coarse_mesher = \<lparr>chord_res = 3, span_res = 2, fus_rad_res = 3, fus_long_res = 2\<rparr>"

text \<open>
  Surfaces over the stations of Scenario A: at the origin, moved along \<open>x\<close>, moved along
  \<open>y\<close>, and with a single station; and vehicles built from them.
\<close>

definition scenario_A_surface :: LiftingSurface where
  "scenario_A_surface =
     new_LiftingSurface ''Wing'' [scenario_A_root, scenario_A_tip] None None True"

definition shifted_surface :: LiftingSurface where
  "shifted_surface =
     new_LiftingSurface ''Wing'' [scenario_A_root, scenario_A_tip] (Some (1, 0, 0)) None True"

definition offset_surface :: LiftingSurface where
  "offset_surface =
     new_LiftingSurface ''Fin'' [scenario_A_root, scenario_A_tip] (Some (0, 1, 0)) None False"

definition fin_at :: "string \<Rightarrow> real \<Rightarrow> LiftingSurface" where
  "fin_at name y =
     new_LiftingSurface name [scenario_A_root, scenario_A_tip] (Some (0, y, 0)) None False"

definition one_station_surface :: LiftingSurface where
  "one_station_surface = new_LiftingSurface ''Fin'' [scenario_A_root] None None False"

definition wing_vehicle :: Vehicle where
  "wing_vehicle = \<lparr>ve_name = ''WIG Prototype'', ve_surfaces = [scenario_A_surface],
                    ve_fuselage = None\<rparr>"

definition two_part_vehicle :: Vehicle where
  "two_part_vehicle =
     \<lparr>ve_name = ''WIG Prototype'', ve_surfaces = [scenario_A_surface, one_station_surface],
      ve_fuselage = None\<rparr>"

definition three_fin_vehicle :: Vehicle where
  "three_fin_vehicle =
     \<lparr>ve_name = ''WIG Prototype'',
      ve_surfaces = [fin_at ''Fin1'' 10, fin_at ''Fin2'' 20, fin_at ''Fin3'' 30],
      ve_fuselage = None\<rparr>"

text \<open>A grid of two by two points and a solid of one triangle.\<close>

definition small_grid :: StructuredGrid where
  "small_grid = \<lparr>grid_points = [(0, 1, 0), (1, 1, 0), (0, 2, 0), (1, 2, 1)],
                  grid_dimensions = (2, 2, 1)\<rparr>"

definition small_poly :: PolyData where
  "small_poly = \<lparr>poly_points = [(0, 1, 0), (1, 1, 0), (0, 2, 0)], poly_faces = [ [0, 1, 2] ]\<rparr>"

text \<open>
  One instance of the library parameters, for concrete evaluations: a new \<open>PolyData\<close> has
  the given points and no face, a sum appends the points and the faces of its second
  argument behind those of the first, the extracted surface keeps the points of the grid,
  every mesh is true, refinement changes nothing, and every boolean union fails, so that
  the fallback is taken.  Every theorem below that mentions a parameter \<open>pv\<close> holds for all
  instances.
\<close>

definition sample_kernel :: pyvista where
  "sample_kernel =
     \<lparr>new_PolyData = (\<lambda>points. \<lparr>poly_points = points, poly_faces = []\<rparr>),
      poly_plus =
        (\<lambda>a b. \<lparr>poly_points = poly_points a @ poly_points b,
                 poly_faces =
                   poly_faces a @ map (map (\<lambda>i. i + length (poly_points a))) (poly_faces b)\<rparr>),
      extract_surface = (\<lambda>g. \<lparr>poly_points = grid_points g, poly_faces = []\<rparr>),
      triangulate_clean = (\<lambda>p. p),
      truthy = (\<lambda>m. True),
      refine = (\<lambda>m. m),
      boolean_union = (\<lambda>a b. None),
      merge = (\<lambda>a b. a)\<rparr>"

section \<open>Rotation composition\<close>

lemma rotate_zyx_combined:
  "rotate_z yaw (rotate_y pitch (rotate_x roll v)) = mat_vec (get_rotation_matrix roll pitch yaw) v"
proof (cases v)
  case (fields a b c)
  show ?thesis
    unfolding fields rotate_x_def rotate_y_def rotate_z_def get_rotation_matrix_def
      Rx_def Ry_def Rz_def Let_def
    by (simp add: distrib_left distrib_right right_diff_distrib left_diff_distrib mult.assoc)
qed

text \<open>
  Claim C10.  For every roll, pitch and yaw the two rotation styles of the source agree:
  turning a point about the global X axis by roll, then about Y by pitch, then about Z by
  yaw, as \<open>_transform_grid\<close> does, gives the point obtained by one multiplication with the
  matrix \<open>Rz @ Ry @ Rx\<close> that \<open>get_rotation_matrix\<close> returns; hence \<open>_transform_grid\<close> maps
  every grid point \<open>v\<close> to \<open>R v + position\<close>.
\<close>

theorem transform_grid_is_combined_matrix:
  "rotate_z yaw (rotate_y pitch (rotate_x roll v)) = mat_vec (get_rotation_matrix roll pitch yaw) v
   \<and> grid_points (transform_grid g (s\<lparr>ls_orientation := (roll, pitch, yaw)\<rparr>)) =
       map (\<lambda>v. vadd (ls_position s) (mat_vec (get_rotation_matrix roll pitch yaw) v))
         (grid_points g)"
  by (simp add: transform_grid_def grid_map_def rotate_zyx_combined o_def)

section \<open>Lofting\<close>

lemma linspace_ok:
  "0 \<le> n \<Longrightarrow> \<exists>xs. linspace a b n = Inr xs \<and> length xs = nat n"
  by (simp add: linspace_def Let_def)

lemma linspace_Inr:
  "linspace a b n = Inr xs \<Longrightarrow> 0 \<le> n \<and> length xs = nat n"
  by (auto simp: linspace_def Let_def split: if_splits)

lemma linspace_first:
  assumes "linspace a b n = Inr xs" "1 \<le> n"
  shows "xs ! 0 = a"
  using assms by (auto simp: linspace_def Let_def nth_list_update split: if_splits)

lemma linspace_last:
  assumes "linspace a b n = Inr xs" "2 \<le> n"
  shows "xs ! (nat n - 1) = b" "last xs = b"
  using assms by (auto simp: linspace_def Let_def nth_list_update last_conv_nth split: if_splits)

lemma mesh_surface_few_stations:
  assumes "length (ls_stations surface) < 2"
  shows "mesh_surface pv self surface solid = Inl ValueError"
proof -
  from assms have "ls_stations surface = [] \<or> (\<exists>s. ls_stations surface = [s])"
    by (cases "ls_stations surface") (auto simp: length_Suc_conv)
  then have "loft_stations self 0 (ls_stations surface) = Inr []" by auto
  then show ?thesis by (simp add: mesh_surface_def concatenate_def)
qed

lemma mesh_surfaces_fail:
  assumes "s \<in> set surfaces" "mesh_surface pv self s solid = Inl e"
  shows "\<exists>e'. mesh_surfaces pv self surfaces solid = Inl e'"
  using assms
proof (induction surfaces)
  case Nil
  then show ?case by simp
next
  case (Cons a rest)
  show ?case
  proof (cases "mesh_surface pv self a solid")
    case (Inl e1)
    then show ?thesis by simp
  next
    case (Inr mesh)
    with Cons.prems have "s \<in> set rest" by auto
    from Cons.IH[OF this Cons.prems(2)] obtain e' where "mesh_surfaces pv self rest solid = Inl e'" ..
    then show ?thesis using Inr by (auto split: sum.splits)
  qed
qed

lemma length_te_closure [simp]: "length (te_closure u l) = length u + (length l - 1)"
  by (simp add: te_closure_def Let_def)

lemma length_arr2 [simp]: "length (arr2 f a b) = min (length a) (length b)"
  by (simp add: arr2_def)

lemma nth_arr2: "i < length a \<Longrightarrow> i < length b \<Longrightarrow> arr2 f a b ! i = f (a ! i) (b ! i)"
  by (simp add: arr2_def)

lemma length_airfoil_x [simp]: "length (airfoil_x beta) = length beta"
  by (simp add: airfoil_x_def)

lemma length_airfoil_yt [simp]: "length (airfoil_yt t x) = length x"
  by (simp add: airfoil_yt_def)

lemma camber_block_Inr:
  assumes "camber_block m p x = Inr (yc, d)"
  shows "length yc = length x" "length d = length x"
  using assms
  by (auto simp: camber_block_def py_div_def split: if_splits)

lemma camber_block_ok:
  assumes "\<not> (0 < m \<and> 0 < p \<and> p = 1)"
  shows "\<exists>yc d. camber_block m p x = Inr (yc, d)"
  using assms by (auto simp: camber_block_def py_div_def)

lemma camber_block_raises:
  assumes "0 < m"
  shows "camber_block m 1 x = Inl ZeroDivisionError"
  using assms by (simp add: camber_block_def py_div_def)

lemma camber_block_symmetric: "camber_block 0 p x = Inr (map (\<lambda>_. 0) x, map (\<lambda>_. 0) x)"
  by (simp add: camber_block_def)

lemma airfoil_arrays_Inr:
  assumes "airfoil_arrays self st = Inr a"
  shows "1 \<le> chord_res self"
    and "length (af_x a) = nat (chord_res self)"
    and "length (af_coords a) = 2 * nat (chord_res self) - 1"
    and "\<forall>v \<in> set (af_coords a). fst (snd v) = 0"
proof -
  from assms obtain beta where b: "linspace 0 pi (chord_res self) = Inr beta"
    by (auto simp: airfoil_arrays_def split: sum.splits)
  from linspace_Inr[OF b] have len: "length beta = nat (chord_res self)" by simp
  from assms b have ne: "airfoil_x beta \<noteq> []"
    by (auto simp: airfoil_arrays_def Let_def split: if_splits)
  then have "beta \<noteq> []" by (auto simp: airfoil_x_def)
  with len show "1 \<le> chord_res self" by (cases "chord_res self \<le> 0") auto
  from assms b ne obtain yc0 d where
    c: "camber_block (st_m st) (st_p st) (airfoil_x beta) = Inr (yc0, d)"
    by (auto simp: airfoil_arrays_def Let_def split: sum.splits)
  note cl = camber_block_Inr[OF c]
  from assms b ne c show "length (af_x a) = nat (chord_res self)"
    using len by (auto simp: airfoil_arrays_def Let_def)
  from assms b ne c cl show "length (af_coords a) = 2 * nat (chord_res self) - 1"
    using len by (auto simp: airfoil_arrays_def Let_def)
  from assms b ne c show "\<forall>v \<in> set (af_coords a). fst (snd v) = 0"
    by (auto simp: airfoil_arrays_def Let_def)
qed

lemma get_airfoil_coords_Inr:
  assumes "get_airfoil_coords self st = Inr af"
  shows "1 \<le> chord_res self"
    and "length af = 2 * nat (chord_res self) - 1"
    and "\<forall>v \<in> set af. fst (snd v) = 0"
proof -
  from assms obtain a where a: "airfoil_arrays self st = Inr a" "af = af_coords a"
    by (auto simp: get_airfoil_coords_def split: sum.splits)
  from airfoil_arrays_Inr[OF a(1)] a(2)
  show "1 \<le> chord_res self" "length af = 2 * nat (chord_res self) - 1"
    "\<forall>v \<in> set af. fst (snd v) = 0" by simp_all
qed

lemma airfoil_arrays_ok:
  assumes "1 \<le> chord_res self" "\<not> (0 < st_m st \<and> 0 < st_p st \<and> st_p st = 1)"
  shows "\<exists>a. airfoil_arrays self st = Inr a"
proof -
  from assms(1) obtain beta where b: "linspace 0 pi (chord_res self) = Inr beta"
    "length beta = nat (chord_res self)"
    using linspace_ok[of "chord_res self" 0 pi] by auto
  from assms(1) b(2) have ne: "airfoil_x beta \<noteq> []" by (auto simp: airfoil_x_def)
  from camber_block_ok[OF assms(2), of "airfoil_x beta"] obtain yc d where
    "camber_block (st_m st) (st_p st) (airfoil_x beta) = Inr (yc, d)" by blast
  with b ne show ?thesis by (simp add: airfoil_arrays_def Let_def)
qed

lemma get_airfoil_coords_ok:
  assumes "1 \<le> chord_res self" "\<not> (0 < st_m st \<and> 0 < st_p st \<and> st_p st = 1)"
  shows "\<exists>af. get_airfoil_coords self st = Inr af"
  using airfoil_arrays_ok[OF assms] by (auto simp: get_airfoil_coords_def)

text \<open>
  A cambered station with \<open>p = 1\<close> has no profile: the quotient \<open>m / (1 - p)**2\<close> raises.
\<close>

lemma get_airfoil_coords_raises:
  assumes "1 \<le> chord_res self" "0 < st_m st" "st_p st = 1"
  shows "get_airfoil_coords self st = Inl ZeroDivisionError"
proof -
  from assms(1) obtain beta where b: "linspace 0 pi (chord_res self) = Inr beta"
    "length beta = nat (chord_res self)"
    using linspace_ok[of "chord_res self" 0 pi] by auto
  from assms(1) b(2) have ne: "airfoil_x beta \<noteq> []" by (auto simp: airfoil_x_def)
  show ?thesis
    using b ne assms(2,3) camber_block_raises[of "st_m st" "airfoil_x beta"]
    by (simp add: get_airfoil_coords_def airfoil_arrays_def Let_def)
qed

lemma length_position_profile [simp]: "length (position_profile af st) = length af"
  by (simp add: position_profile_def Let_def)

lemma position_profile_y:
  assumes "\<forall>v \<in> set af. fst (snd v) = 0" "w \<in> set (position_profile af st)"
  shows "fst (snd w) = st_y st"
  using assms by (auto simp: position_profile_def Let_def split: prod.splits)

lemma length_station_transform_spec [simp]: "length (station_transform_spec af st) = length af"
  by (simp add: station_transform_spec_def Let_def)

text \<open>
  \<open>_position_profile\<close> against the station transform of the specification.  The two agree
  when the sine of the twist is zero.  They differ for a twisted station, where the code
  computes the new \<open>z\<close> from the already rotated \<open>x\<close>: at twist 90 and chord 2 the point
  \<open>(1, 0, 0)\<close> goes to \<open>(0, 0, 0)\<close>, the rotation takes it to \<open>(0, 0, -2)\<close>.  The statements
  below about the station transform are therefore made for stations whose twist has sine
  zero, and say nothing about the others.
\<close>

lemma position_profile_untwisted:
  assumes "sin (radians (st_twist st)) = 0"
  shows "position_profile af st = station_transform_spec af st"
proof -
  have "radians (- st_twist st) = - radians (st_twist st)" by (simp add: radians_def)
  then have s: "sin (radians (- st_twist st)) = 0" using assms by simp
  show ?thesis
    by (simp add: position_profile_def station_transform_spec_def Let_def s split: prod.splits)
qed

lemma position_profile_twisted:
  "position_profile [(1, 0, 0)]
     \<lparr>st_y = 0, st_chord = 2, st_x = 0, st_z = 0, st_twist = 90,
      st_m = 0, st_p = 0, st_t = 0.12, st_r = 0\<rparr> = [(0, 0, 0)]"
  "station_transform_spec [(1, 0, 0)]
     \<lparr>st_y = 0, st_chord = 2, st_x = 0, st_z = 0, st_twist = 90,
      st_m = 0, st_p = 0, st_t = 0.12, st_r = 0\<rparr> = [(0, 0, - 2)]"
proof -
  have r: "radians (- 90) = - (pi / 2)" by (simp add: radians_def)
  show "position_profile [(1, 0, 0)]
     \<lparr>st_y = 0, st_chord = 2, st_x = 0, st_z = 0, st_twist = 90,
      st_m = 0, st_p = 0, st_t = 0.12, st_r = 0\<rparr> = [(0, 0, 0)]"
    by (simp add: position_profile_def Let_def r)
  show "station_transform_spec [(1, 0, 0)]
     \<lparr>st_y = 0, st_chord = 2, st_x = 0, st_z = 0, st_twist = 90,
      st_m = 0, st_p = 0, st_t = 0.12, st_r = 0\<rparr> = [(0, 0, - 2)]"
    by (simp add: station_transform_spec_def Let_def r)
qed

lemma lerp_0 [simp]: "lerp 0 a b = a"
  by (cases a; cases b) (simp add: lerp_def)

lemma lerp_1 [simp]: "lerp 1 a b = b"
  by (cases a; cases b) (simp add: lerp_def)

lemma zip_lerp_0: "length p1 = length p2 \<Longrightarrow> map (\<lambda>(a, b). lerp 0 a b) (zip p1 p2) = p1"
  by (induction p1 p2 rule: list_induct2) auto

lemma zip_lerp_1: "length p1 = length p2 \<Longrightarrow> map (\<lambda>(a, b). lerp 1 a b) (zip p1 p2) = p2"
  by (induction p1 p2 rule: list_induct2) auto

lemma loft_segment_ok:
  assumes "get_airfoil_coords self st1 = Inr af1" "get_airfoil_coords self st2 = Inr af2"
    and "0 \<le> span_res self"
  shows "\<exists>ts. linspace 0 1 (span_res self) = Inr ts \<and> length ts = nat (span_res self) \<and>
           loft_segment self st1 st2 =
             Inr (2 * nat (chord_res self) - 1,
                  map (\<lambda>ti. map (\<lambda>(a, b). lerp ti a b)
                               (zip (position_profile af1 st1) (position_profile af2 st2))) ts)"
proof -
  from linspace_ok[OF assms(3), of 0 1] obtain ts where
    t: "linspace 0 1 (span_res self) = Inr ts" "length ts = nat (span_res self)" by blast
  have "loft_segment self st1 st2 =
             Inr (2 * nat (chord_res self) - 1,
                  map (\<lambda>ti. map (\<lambda>(a, b). lerp ti a b)
                               (zip (position_profile af1 st1) (position_profile af2 st2))) ts)"
    using get_airfoil_coords_Inr(2)[OF assms(1)]
    by (simp add: loft_segment_def assms(1,2) t Let_def)
  with t show ?thesis by blast
qed

lemma transform_grid_points:
  "grid_points (transform_grid g s) = map (transform_point s) (grid_points g)"
  by (simp add: transform_grid_def grid_map_def transform_point_def split: prod.splits)

lemma transform_grid_dimensions [simp]:
  "grid_dimensions (transform_grid g s) = grid_dimensions g"
  by (simp add: transform_grid_def grid_map_def split: prod.splits)

lemma rotate_zero [simp]: "rotate_x 0 v = v" "rotate_y 0 v = v" "rotate_z 0 v = v"
  by (cases v; simp add: rotate_x_def rotate_y_def rotate_z_def radians_def Rx_def Ry_def Rz_def)+

lemma transform_point_identity:
  "ls_orientation s = (0, 0, 0) \<Longrightarrow> ls_position s = (0, 0, 0) \<Longrightarrow> transform_point s v = v"
  by (cases v) (simp add: transform_point_def)

lemma first_n_concat:
  assumes "rows \<noteq> []" "length (hd rows) = w"
  shows "first_n w (concat rows) = hd rows"
  using assms by (cases rows) (auto simp: first_n_def)

lemma last_n_concat:
  assumes "rows \<noteq> []" "length (last rows) = w" "0 < w"
  shows "last_n w (concat rows) = last rows"
proof -
  from assms(1) obtain ini where r: "rows = ini @ [last rows]"
    by (metis append_butlast_last_id)
  have "concat rows = concat ini @ last rows"
    by (subst r) simp
  then show ?thesis using assms(2,3) by (auto simp: last_n_def)
qed

lemma first_n_map: "first_n n (map f xs) = map f (first_n n xs)"
  by (simp add: first_n_def take_map)

lemma last_n_map: "last_n n (map f xs) = map f (last_n n xs)"
  by (simp add: last_n_def drop_map)

lemma mesh_surface_two_stations:
  assumes st: "ls_stations surface = [st1, st2]"
    and a1: "get_airfoil_coords self st1 = Inr af1"
    and a2: "get_airfoil_coords self st2 = Inr af2"
    and sr: "1 \<le> span_res self"
  shows "\<exists>ts g.
           linspace 0 1 (span_res self) = Inr ts \<and>
           mesh_surface pv self surface False = Inr (Grid g) \<and>
           grid_dimensions g = (2 * nat (chord_res self) - 1, nat (span_res self), 1) \<and>
           length (grid_points g) = (2 * nat (chord_res self) - 1) * nat (span_res self) \<and>
           first_n (2 * nat (chord_res self) - 1) (grid_points g) =
             map (transform_point surface)
               (map (\<lambda>(a, b). lerp (ts ! 0) a b)
                  (zip (position_profile af1 st1) (position_profile af2 st2))) \<and>
           last_n (2 * nat (chord_res self) - 1) (grid_points g) =
             map (transform_point surface)
               (map (\<lambda>(a, b). lerp (last ts) a b)
                  (zip (position_profile af1 st1) (position_profile af2 st2)))"
proof -
  let ?w = "2 * nat (chord_res self) - 1"
  note s1 = get_airfoil_coords_Inr[OF a1]
  note s2 = get_airfoil_coords_Inr[OF a2]
  from sr have sr0: "0 \<le> span_res self" by simp
  from loft_segment_ok[OF a1 a2 sr0] obtain ts where
    t: "linspace 0 1 (span_res self) = Inr ts" "length ts = nat (span_res self)"
    and seg: "loft_segment self st1 st2 =
             Inr (?w, map (\<lambda>ti. map (\<lambda>(a, b). lerp ti a b)
                               (zip (position_profile af1 st1) (position_profile af2 st2))) ts)"
    by blast
  let ?row = "\<lambda>ti. map (\<lambda>(a, b). lerp ti a b)
                    (zip (position_profile af1 st1) (position_profile af2 st2))"
  let ?rows = "map ?row ts"
  let ?g = "transform_grid \<lparr>grid_points = concat ?rows,
                            grid_dimensions = (?w, length ?rows, 1)\<rparr> surface"
  have ms: "mesh_surface pv self surface False = Inr (Grid ?g)"
    by (simp add: mesh_surface_def st seg concatenate_def Let_def)
  have rowlen: "\<And>ti. length (?row ti) = ?w" using s1(2) s2(2) by simp
  from sr t(2) have tsne: "ts \<noteq> []" by auto
  then have rne: "?rows \<noteq> []" by simp
  have hd_rows: "hd ?rows = ?row (ts ! 0)" using tsne by (simp add: hd_map hd_conv_nth)
  have last_rows: "last ?rows = ?row (last ts)" using tsne by (simp add: last_map)
  have len: "length (concat ?rows) = ?w * nat (span_res self)"
    using rowlen t(2) by (simp add: length_concat o_def sum_list_triv)
  have f: "first_n ?w (grid_points ?g) = map (transform_point surface) (?row (ts ! 0))"
    unfolding transform_grid_points first_n_map
    using first_n_concat[OF rne, of ?w] hd_rows rowlen by simp
  have l: "last_n ?w (grid_points ?g) = map (transform_point surface) (?row (last ts))"
    unfolding transform_grid_points last_n_map
    using last_n_concat[OF rne, of ?w] last_rows rowlen s1(1) by simp
  have d: "grid_dimensions ?g = (?w, nat (span_res self), 1)" using t(2) by simp
  have n: "length (grid_points ?g) = ?w * nat (span_res self)"
    unfolding transform_grid_points using len by simp
  from t(1) ms f l d n show ?thesis by blast
qed

lemma first_slice:
  assumes "grid_dimensions g = (d0, d1, d2)" "length (grid_points g) = d0 * d1" "0 < d1"
  shows "first_n d0 (grid_points g) = grid_slice g 0"
proof -
  from assms(2,3) have le: "d0 \<le> length (grid_points g)" by simp
  show ?thesis
    unfolding first_n_def grid_slice_def assms(1) using le
    by (intro nth_equalityI) simp_all
qed

lemma last_slice:
  assumes "grid_dimensions g = (d0, d1, d2)" "length (grid_points g) = d0 * d1"
    "0 < d0" "0 < d1"
  shows "last_n d0 (grid_points g) = grid_slice g (d1 - 1)"
proof -
  from assms(4) obtain k where k: "d1 = Suc k" by (cases d1) auto
  have off: "length (grid_points g) - d0 = d0 * k" using assms(2) k by simp
  show ?thesis
    unfolding last_n_def grid_slice_def assms(1) using assms(3) off k assms(2)
    by (intro nth_equalityI) (simp_all add: add.commute)
qed

lemma two_station_slices:
  assumes st: "ls_stations surface = [st1, st2]"
    and a1: "get_airfoil_coords self st1 = Inr af1"
    and a2: "get_airfoil_coords self st2 = Inr af2"
    and sr: "2 \<le> span_res self"
  shows "\<exists>g. mesh_surface pv self surface False = Inr (Grid g) \<and>
           grid_dimensions g = (2 * nat (chord_res self) - 1, nat (span_res self), 1) \<and>
           length (grid_points g) = (2 * nat (chord_res self) - 1) * nat (span_res self) \<and>
           first_n (2 * nat (chord_res self) - 1) (grid_points g) =
             map (transform_point surface) (position_profile af1 st1) \<and>
           last_n (2 * nat (chord_res self) - 1) (grid_points g) =
             map (transform_point surface) (position_profile af2 st2)"
proof -
  from sr have sr1: "1 \<le> span_res self" by simp
  from mesh_surface_two_stations[OF st a1 a2 sr1, of pv] obtain ts g where
    t: "linspace 0 1 (span_res self) = Inr ts"
    and g: "mesh_surface pv self surface False = Inr (Grid g)"
       "grid_dimensions g = (2 * nat (chord_res self) - 1, nat (span_res self), 1)"
       "length (grid_points g) = (2 * nat (chord_res self) - 1) * nat (span_res self)"
    and f: "first_n (2 * nat (chord_res self) - 1) (grid_points g) =
             map (transform_point surface)
               (map (\<lambda>(a, b). lerp (ts ! 0) a b)
                  (zip (position_profile af1 st1) (position_profile af2 st2)))"
    and l: "last_n (2 * nat (chord_res self) - 1) (grid_points g) =
             map (transform_point surface)
               (map (\<lambda>(a, b). lerp (last ts) a b)
                  (zip (position_profile af1 st1) (position_profile af2 st2)))"
    by blast
  have t0: "ts ! 0 = 0" using linspace_first[OF t] sr by simp
  have t1: "last ts = 1" using linspace_last(2)[OF t sr] .
  have eq: "length (position_profile af1 st1) = length (position_profile af2 st2)"
    using get_airfoil_coords_Inr(2)[OF a1] get_airfoil_coords_Inr(2)[OF a2] by simp
  from f have f': "first_n (2 * nat (chord_res self) - 1) (grid_points g) =
             map (transform_point surface) (position_profile af1 st1)"
    unfolding t0 zip_lerp_0[OF eq] .
  from l have l': "last_n (2 * nat (chord_res self) - 1) (grid_points g) =
             map (transform_point surface) (position_profile af2 st2)"
    unfolding t1 zip_lerp_1[OF eq] .
  from g f' l' show ?thesis by blast
qed

text \<open>
  Claim C1, amended.  For every lifting surface with exactly two stations whose airfoil
  loops are generated and whose twist has sine zero (a multiple of 180 degrees, in
  particular no twist), meshed open with \<open>span_res \<ge> 2\<close>, the first spanwise slice of the
  grid is the first station's transformed loop (scaled by the chord, rotated by minus the
  twist, translated by \<open>(x, y, z)\<close>) carried through the surface's global rotation and
  translation, and the last slice is the last station's transformed loop carried through
  the same motion; for a surface with zero orientation and zero position the two slices
  are the transformed loops themselves.
\<close>

theorem loft_end_slices:
  assumes "ls_stations surface = [st1, st2]"
    and "get_airfoil_coords self st1 = Inr af1" "get_airfoil_coords self st2 = Inr af2"
    and "sin (radians (st_twist st1)) = 0" "sin (radians (st_twist st2)) = 0"
    and "2 \<le> span_res self"
  shows "\<exists>g.
           mesh_surface pv self surface False = Inr (Grid g) \<and>
           grid_dimensions g = (length af1, nat (span_res self), 1) \<and>
           grid_slice g 0 = map (transform_point surface) (station_transform_spec af1 st1) \<and>
           grid_slice g (nat (span_res self) - 1) =
             map (transform_point surface) (station_transform_spec af2 st2) \<and>
           first_n (fst (grid_dimensions g)) (grid_points g) =
             map (transform_point surface) (station_transform_spec af1 st1) \<and>
           last_n (fst (grid_dimensions g)) (grid_points g) =
             map (transform_point surface) (station_transform_spec af2 st2) \<and>
           (ls_orientation surface = (0, 0, 0) \<and> ls_position surface = (0, 0, 0) \<longrightarrow>
              first_n (fst (grid_dimensions g)) (grid_points g) = station_transform_spec af1 st1 \<and>
              last_n (fst (grid_dimensions g)) (grid_points g) = station_transform_spec af2 st2)"
proof -
  let ?w = "2 * nat (chord_res self) - 1"
  from two_station_slices[OF assms(1,2,3,6), of pv] obtain g where
    g: "mesh_surface pv self surface False = Inr (Grid g)"
       "grid_dimensions g = (?w, nat (span_res self), 1)"
       "length (grid_points g) = ?w * nat (span_res self)"
    and f: "first_n ?w (grid_points g) =
             map (transform_point surface) (position_profile af1 st1)"
    and l: "last_n ?w (grid_points g) =
             map (transform_point surface) (position_profile af2 st2)"
    by blast
  note p1 = position_profile_untwisted[OF assms(4), of af1]
  note p2 = position_profile_untwisted[OF assms(5), of af2]
  note s1 = get_airfoil_coords_Inr[OF assms(2)]
  from s1(1) have w0: "0 < ?w" by simp
  from assms(6) have n0: "0 < nat (span_res self)" by simp
  have d: "grid_dimensions g = (length af1, nat (span_res self), 1)"
    using g(2) s1(2) by simp
  have s0: "grid_slice g 0 = map (transform_point surface) (station_transform_spec af1 st1)"
    using first_slice[OF g(2,3) n0] f unfolding p1 by simp
  have sl: "grid_slice g (nat (span_res self) - 1) =
              map (transform_point surface) (station_transform_spec af2 st2)"
    using last_slice[OF g(2,3) w0 n0] l unfolding p2 by simp
  have id: "ls_orientation surface = (0, 0, 0) \<and> ls_position surface = (0, 0, 0) \<Longrightarrow>
              map (transform_point surface) xs = xs" for xs
    by (simp add: transform_point_identity map_idI)
  from f l have f': "first_n (fst (grid_dimensions g)) (grid_points g) =
             map (transform_point surface) (station_transform_spec af1 st1)"
    and l': "last_n (fst (grid_dimensions g)) (grid_points g) =
             map (transform_point surface) (station_transform_spec af2 st2)"
    unfolding p1 p2 by (simp_all add: g(2))
  from g(1) d s0 sl f' l' id show ?thesis by simp
qed

section \<open>Concrete inputs\<close>

lemma scenario_A_surface_simps [simp]:
  "ls_stations scenario_A_surface = [scenario_A_root, scenario_A_tip]"
  "ls_orientation scenario_A_surface = (0, 0, 0)"
  "ls_position scenario_A_surface = (0, 0, 0)"
  "ls_mirrored scenario_A_surface = True"
  "ls_name scenario_A_surface = ''Wing''"
  by (simp_all add: scenario_A_surface_def new_LiftingSurface_def)

lemma shifted_surface_simps [simp]:
  "ls_stations shifted_surface = [scenario_A_root, scenario_A_tip]"
  "ls_orientation shifted_surface = (0, 0, 0)"
  "ls_position shifted_surface = (1, 0, 0)"
  by (simp_all add: shifted_surface_def new_LiftingSurface_def)

lemma new_StructuredMesher_simps [simp]:
  "chord_res new_StructuredMesher = 30" "span_res new_StructuredMesher = 15"
  "fus_rad_res new_StructuredMesher = 36" "fus_long_res new_StructuredMesher = 50"
  by (simp_all add: new_StructuredMesher_def)

lemma scenario_A_stations [simp]:
  "st_m scenario_A_root = 0" "st_r scenario_A_root = 0" "st_twist scenario_A_root = 0"
  "st_y scenario_A_root = 0"
  "st_m scenario_A_tip = 0" "st_r scenario_A_tip = 0" "st_twist scenario_A_tip = 0"
  "st_y scenario_A_tip = 5"
  by (simp_all add: scenario_A_root_def scenario_A_tip_def)

lemma scenario_A_loops:
  assumes "1 \<le> chord_res self"
  shows "\<exists>af1 af2. get_airfoil_coords self scenario_A_root = Inr af1 \<and>
                   get_airfoil_coords self scenario_A_tip = Inr af2"
  using get_airfoil_coords_ok[OF assms, of scenario_A_root]
        get_airfoil_coords_ok[OF assms, of scenario_A_tip] by auto

lemma radians_zero [simp]: "radians 0 = 0"
  by (simp add: radians_def)

lemma untwisted_scenario_A:
  "sin (radians (st_twist scenario_A_root)) = 0" "sin (radians (st_twist scenario_A_tip)) = 0"
  by simp_all

text \<open>
  The hypotheses of C1 hold for the surface of Scenario A under the default resolution.
\<close>

theorem loft_end_slices_witness:
  "ls_stations scenario_A_surface = [scenario_A_root, scenario_A_tip] \<and>
   sin (radians (st_twist scenario_A_root)) = 0 \<and>
   sin (radians (st_twist scenario_A_tip)) = 0 \<and>
   2 \<le> span_res new_StructuredMesher \<and>
   (\<exists>g af1 af2.
      get_airfoil_coords new_StructuredMesher scenario_A_root = Inr af1 \<and>
      get_airfoil_coords new_StructuredMesher scenario_A_tip = Inr af2 \<and>
      mesh_surface sample_kernel new_StructuredMesher scenario_A_surface False = Inr (Grid g) \<and>
      first_n (fst (grid_dimensions g)) (grid_points g)
        = station_transform_spec af1 scenario_A_root \<and>
      last_n (fst (grid_dimensions g)) (grid_points g)
        = station_transform_spec af2 scenario_A_tip)"
proof -
  have h1: "ls_stations scenario_A_surface = [scenario_A_root, scenario_A_tip]" by simp
  have h3: "2 \<le> span_res new_StructuredMesher" by simp
  from scenario_A_loops[of new_StructuredMesher] obtain af1 af2 where
    a: "get_airfoil_coords new_StructuredMesher scenario_A_root = Inr af1"
       "get_airfoil_coords new_StructuredMesher scenario_A_tip = Inr af2" by auto
  from loft_end_slices[OF h1 a untwisted_scenario_A h3, of sample_kernel] a h1 h3
  show ?thesis by simp blast
qed

text \<open>
  Claim C1 as stated fails for an untwisted surface whose global position is
  \<open>(1, 0, 0)\<close>: every point of the first slice is the point of the first station's
  transformed loop moved by one unit along \<open>x\<close>, so the slice is not that loop.
\<close>

theorem loft_first_slice_counterexample:
  "\<exists>g af1.
     mesh_surface sample_kernel new_StructuredMesher shifted_surface False = Inr (Grid g) \<and>
     get_airfoil_coords new_StructuredMesher scenario_A_root = Inr af1 \<and>
     first_n (fst (grid_dimensions g)) (grid_points g) =
       map (vadd (1, 0, 0)) (station_transform_spec af1 scenario_A_root) \<and>
     first_n (fst (grid_dimensions g)) (grid_points g) \<noteq> station_transform_spec af1 scenario_A_root"
proof -
  have h1: "ls_stations shifted_surface = [scenario_A_root, scenario_A_tip]" by simp
  have h3: "2 \<le> span_res new_StructuredMesher" by simp
  from scenario_A_loops[of new_StructuredMesher] obtain af1 af2 where
    a: "get_airfoil_coords new_StructuredMesher scenario_A_root = Inr af1"
       "get_airfoil_coords new_StructuredMesher scenario_A_tip = Inr af2" by auto
  from two_station_slices[OF h1 a h3, of sample_kernel] obtain g where
    g: "mesh_surface sample_kernel new_StructuredMesher shifted_surface False = Inr (Grid g)"
       "grid_dimensions g =
          (2 * nat (chord_res new_StructuredMesher) - 1, nat (span_res new_StructuredMesher), 1)"
    and f: "first_n (2 * nat (chord_res new_StructuredMesher) - 1) (grid_points g) =
              map (transform_point shifted_surface) (position_profile af1 scenario_A_root)"
    by blast
  have tp: "transform_point shifted_surface = vadd (1, 0, 0)"
    by (rule ext) (simp add: transform_point_def)
  have pp: "position_profile af1 scenario_A_root = station_transform_spec af1 scenario_A_root"
    by (rule position_profile_untwisted) simp
  let ?p = "station_transform_spec af1 scenario_A_root"
  have ne: "?p \<noteq> []"
  proof
    assume "?p = []"
    then have "length ?p = 0" by (simp only: list.size)
    with get_airfoil_coords_Inr(2)[OF a(1)] show False by simp
  qed
  have "map (vadd (1, 0, 0)) ?p \<noteq> ?p"
  proof
    assume "map (vadd (1, 0, 0)) ?p = ?p"
    then have "hd (map (vadd (1, 0, 0)) ?p) = hd ?p" by simp
    with ne have "vadd (1, 0, 0) (hd ?p) = hd ?p" by (simp add: hd_map)
    then show False by (cases "hd ?p") simp
  qed
  with a(1) g f tp pp show ?thesis by simp
qed

section \<open>Scenario A\<close>

lemma mean_constant:
  assumes "xs \<noteq> []" "\<forall>v \<in> set xs. f v = c"
  shows "mean (map f xs) = c"
proof -
  from assms(2) have "map f xs = replicate (length xs) c"
    by (simp add: map_replicate_const[symmetric] cong: map_cong)
  then have "sum_list (map f xs) = real (length xs) * c"
    by (simp add: sum_list_replicate)
  with assms(1) show ?thesis by (simp add: mean_def)
qed

lemma slice_mean_y:
  assumes "\<forall>v \<in> set af. fst (snd v) = 0" "af \<noteq> []"
  shows "mean (map (\<lambda>v. fst (snd v)) (position_profile af st)) = st_y st"
proof -
  have ne: "position_profile af st \<noteq> []"
    using assms(2) by (simp add: position_profile_def Let_def)
  have "\<forall>w \<in> set (position_profile af st). fst (snd w) = st_y st"
    using position_profile_y[OF assms(1)] by blast
  from mean_constant[OF ne this] show ?thesis .
qed

lemma loop_nonempty:
  assumes "get_airfoil_coords self st = Inr af"
  shows "af \<noteq> []"
proof
  assume "af = []"
  then have "length af = 0" by simp
  with get_airfoil_coords_Inr(1,2)[OF assms] show False by simp
qed

text \<open>
  Claim C2.  The two stations of Scenario A, lofted open with \<open>chord_res = 30\<close> and
  \<open>span_res = 15\<close>, give a grid of \<open>59\<close> chordwise points by \<open>15\<close> spanwise slices; the mean
  \<open>y\<close> of the root slice is \<open>0\<close> and the mean \<open>y\<close> of the tip slice is \<open>5\<close>.
\<close>

theorem scenario_A_grid:
  "new_WingStation 0 2 0 0 0 (Some [0, 0, 0.12, 0]) = Inr scenario_A_root \<and>
   new_WingStation 5 1 1 0.5 0 (Some [0, 0, 0.12, 0]) = Inr scenario_A_tip \<and>
   (\<exists>g. mesh_surface pv new_StructuredMesher
           (new_LiftingSurface name [scenario_A_root, scenario_A_tip] None None mirrored) False
         = Inr (Grid g) \<and>
        grid_dimensions g = (59, 15, 1) \<and>
        length (grid_points g) = 59 * 15 \<and>
        mean (map (\<lambda>v. fst (snd v)) (first_n 59 (grid_points g))) = 0 \<and>
        mean (map (\<lambda>v. fst (snd v)) (last_n 59 (grid_points g))) = 5)"
proof -
  let ?s = "new_LiftingSurface name [scenario_A_root, scenario_A_tip] None None mirrored"
  have w1: "new_WingStation 0 2 0 0 0 (Some [0, 0, 0.12, 0]) = Inr scenario_A_root"
    by (simp add: new_WingStation_def scenario_A_root_def)
  have w2: "new_WingStation 5 1 1 0.5 0 (Some [0, 0, 0.12, 0]) = Inr scenario_A_tip"
    by (simp add: new_WingStation_def scenario_A_tip_def)
  have h1: "ls_stations ?s = [scenario_A_root, scenario_A_tip]"
    by (simp add: new_LiftingSurface_def)
  have h3: "2 \<le> span_res new_StructuredMesher" by simp
  have o: "ls_orientation ?s = (0, 0, 0)" "ls_position ?s = (0, 0, 0)"
    by (simp_all add: new_LiftingSurface_def)
  have id: "map (transform_point ?s) xs = xs" for xs
    using transform_point_identity[OF o] by (simp add: map_idI)
  from scenario_A_loops[of new_StructuredMesher] obtain af1 af2 where
    a: "get_airfoil_coords new_StructuredMesher scenario_A_root = Inr af1"
       "get_airfoil_coords new_StructuredMesher scenario_A_tip = Inr af2" by auto
  from two_station_slices[OF h1 a h3, of pv] obtain g where
    g: "mesh_surface pv new_StructuredMesher ?s False = Inr (Grid g)"
       "grid_dimensions g =
          (2 * nat (chord_res new_StructuredMesher) - 1, nat (span_res new_StructuredMesher), 1)"
       "length (grid_points g) =
          (2 * nat (chord_res new_StructuredMesher) - 1) * nat (span_res new_StructuredMesher)"
    and f: "first_n (2 * nat (chord_res new_StructuredMesher) - 1) (grid_points g) =
              map (transform_point ?s) (position_profile af1 scenario_A_root)"
    and l: "last_n (2 * nat (chord_res new_StructuredMesher) - 1) (grid_points g) =
              map (transform_point ?s) (position_profile af2 scenario_A_tip)"
    by blast
  have f': "first_n 59 (grid_points g) = position_profile af1 scenario_A_root"
    using f unfolding id by simp
  have l': "last_n 59 (grid_points g) = position_profile af2 scenario_A_tip"
    using l unfolding id by simp
  have m1: "mean (map (\<lambda>v. fst (snd v)) (first_n 59 (grid_points g))) = 0"
    unfolding f'
    using slice_mean_y[OF get_airfoil_coords_Inr(3)[OF a(1)] loop_nonempty[OF a(1)],
            of scenario_A_root]
    by simp
  have m2: "mean (map (\<lambda>v. fst (snd v)) (last_n 59 (grid_points g))) = 5"
    unfolding l'
    using slice_mean_y[OF get_airfoil_coords_Inr(3)[OF a(2)] loop_nonempty[OF a(2)],
            of scenario_A_tip]
    by simp
  have d: "grid_dimensions g = (59, 15, 1)" using g(2) by simp
  have n: "length (grid_points g) = 59 * 15" using g(3) by simp
  from w1 w2 g(1) d n m1 m2 show ?thesis by blast
qed

section \<open>Failures\<close>

text \<open>
  Claim C9.  A lifting surface with fewer than two stations is rejected: \<open>_mesh_surface\<close>
  raises ValueError and returns no mesh, in open and in solid mode and for every
  resolution, and no segment is lofted before it does.
\<close>

theorem few_stations_rejected:
  assumes "length (ls_stations surface) < 2"
  shows "mesh_surface pv self surface solid = Inl ValueError \<and>
         loft_stations self 0 (ls_stations surface) = Inr []"
proof -
  from assms have "ls_stations surface = [] \<or> (\<exists>s. ls_stations surface = [s])"
    by (cases "ls_stations surface") (auto simp: length_Suc_conv)
  then have "loft_stations self 0 (ls_stations surface) = Inr []" by auto
  with mesh_surface_few_stations[OF assms] show ?thesis by simp
qed

text \<open>
  A surface with a single station is rejected in both modes.
\<close>

theorem few_stations_rejected_witness:
  "length (ls_stations one_station_surface) < 2 \<and>
   mesh_surface sample_kernel new_StructuredMesher one_station_surface True = Inl ValueError \<and>
   mesh_surface sample_kernel new_StructuredMesher one_station_surface False = Inl ValueError"
proof -
  have h: "length (ls_stations one_station_surface) < 2"
    by (simp add: one_station_surface_def new_LiftingSurface_def)
  from few_stations_rejected[OF h, of sample_kernel new_StructuredMesher True]
       few_stations_rejected[OF h, of sample_kernel new_StructuredMesher False] h
  show ?thesis by simp
qed

lemma mesh_vehicle_fail_surface:
  assumes "s \<in> set (ve_surfaces vehicle)" "mesh_surface pv self s solid = Inl e"
  shows "\<exists>e'. mesh_vehicle pv self vehicle solid = Inl e'"
proof -
  from mesh_surfaces_fail[OF assms] obtain e' where
    "mesh_surfaces pv self (ve_surfaces vehicle) solid = Inl e'" ..
  then show ?thesis by (simp add: mesh_vehicle_def)
qed

lemma mesh_vehicle_fail_fuselage:
  assumes "ve_fuselage vehicle = Some f" "mesh_fuselage pv self f solid = Inl e"
  shows "\<exists>e'. mesh_vehicle pv self vehicle solid = Inl e'"
  using assms by (auto simp: mesh_vehicle_def split: sum.splits)

text \<open>
  Claim C8, amended.  If the geometry of one component of a vehicle fails, a lifting
  surface or the fuselage, \<open>mesh_vehicle\<close> does not catch the failure: the exception leaves
  \<open>mesh_vehicle\<close>, which returns no mesh of any component.
\<close>

theorem mesh_vehicle_propagates_failure:
  assumes "(\<exists>s \<in> set (ve_surfaces vehicle). \<exists>e. mesh_surface pv self s solid = Inl e) \<or>
           (\<exists>f e. ve_fuselage vehicle = Some f \<and> mesh_fuselage pv self f solid = Inl e)"
  shows "\<exists>e. mesh_vehicle pv self vehicle solid = Inl e"
  using assms mesh_vehicle_fail_surface mesh_vehicle_fail_fuselage by blast

lemma one_station_fails:
  "mesh_surface pv self one_station_surface solid = Inl ValueError"
  by (rule mesh_surface_few_stations) (simp add: one_station_surface_def new_LiftingSurface_def)

text \<open>
  A vehicle with the surface of Scenario A followed by a surface with one station.
\<close>

theorem mesh_vehicle_propagates_failure_witness:
  "one_station_surface \<in> set (ve_surfaces two_part_vehicle) \<and>
   mesh_surface sample_kernel new_StructuredMesher one_station_surface False = Inl ValueError \<and>
   (\<exists>e. mesh_vehicle sample_kernel new_StructuredMesher two_part_vehicle False = Inl e)"
proof -
  have h1: "one_station_surface \<in> set (ve_surfaces two_part_vehicle)"
    by (simp add: two_part_vehicle_def)
  have h2: "mesh_surface sample_kernel new_StructuredMesher one_station_surface False
              = Inl ValueError"
    by (rule one_station_fails)
  from h1 h2 have "(\<exists>s \<in> set (ve_surfaces two_part_vehicle).
             \<exists>e. mesh_surface sample_kernel new_StructuredMesher s False = Inl e) \<or>
           (\<exists>f e. ve_fuselage two_part_vehicle = Some f \<and>
             mesh_fuselage sample_kernel new_StructuredMesher f False = Inl e)"
    by blast
  from mesh_vehicle_propagates_failure[OF this] h1 h2 show ?thesis by simp
qed

text \<open>
  Claim C8 as stated fails: the first surface of the vehicle meshes on its own, the second
  has a single station, and \<open>mesh_vehicle\<close> raises ValueError instead of returning the mesh
  of the first.
\<close>

theorem mesh_vehicle_aborts_counterexample:
  "(\<exists>g. mesh_surface sample_kernel new_StructuredMesher scenario_A_surface False = Inr (Grid g)) \<and>
   mesh_vehicle sample_kernel new_StructuredMesher two_part_vehicle False = Inl ValueError"
proof -
  have h1: "ls_stations scenario_A_surface = [scenario_A_root, scenario_A_tip]" by simp
  have h3: "2 \<le> span_res new_StructuredMesher" by simp
  from scenario_A_loops[of new_StructuredMesher] obtain af1 af2 where
    a: "get_airfoil_coords new_StructuredMesher scenario_A_root = Inr af1"
       "get_airfoil_coords new_StructuredMesher scenario_A_tip = Inr af2" by auto
  from two_station_slices[OF h1 a h3, of sample_kernel] obtain g where
    g: "mesh_surface sample_kernel new_StructuredMesher scenario_A_surface False = Inr (Grid g)"
    by blast
  have "mesh_vehicle sample_kernel new_StructuredMesher two_part_vehicle False = Inl ValueError"
    by (simp add: mesh_vehicle_def two_part_vehicle_def g one_station_fails vehicle_mirror_def)
  with g show ?thesis by blast
qed

section \<open>Symmetric airfoils\<close>

lemma arr2_times_sin_zero:
  "length yt = length x \<Longrightarrow> arr2 (*) yt (map (sin \<circ> arctan \<circ> (\<lambda>_. 0)) x) = map (\<lambda>_. 0) x"
  by (intro nth_equalityI) (simp_all add: arr2_def)

lemma arr2_times_cos_zero:
  "length yt = length x \<Longrightarrow> arr2 (*) yt (map (cos \<circ> arctan \<circ> (\<lambda>_. 0)) x) = yt"
  by (intro nth_equalityI) (simp_all add: arr2_def)

lemma arr2_zero_right:
  "arr2 (-) x (map (\<lambda>_. 0) x) = x" "arr2 (+) x (map (\<lambda>_. 0) x) = x"
  by (intro nth_equalityI; simp add: arr2_def)+

lemma arr2_zero_left:
  "length yt = length x \<Longrightarrow> arr2 (+) (map (\<lambda>_. 0) x) yt = yt"
  "length yt = length x \<Longrightarrow> arr2 (-) (map (\<lambda>_. 0) x) yt = map uminus yt"
  by (intro nth_equalityI; simp add: arr2_def)+

lemma te_closure_closed:
  assumes "u \<noteq> []" "length l = length u" "last l = last u"
  shows "te_closure u l = rev u @ drop 1 l"
proof -
  let ?loop = "rev u @ drop 1 l"
  have ne: "?loop \<noteq> []" using assms(1) by simp
  have first: "?loop ! 0 = last u"
    using assms(1) by (simp add: nth_append rev_nth last_conv_nth)
  have "last ?loop = last u"
  proof (cases "drop 1 l = []")
    case True
    then have "length u = 1" using assms(1,2) by (cases l) auto
    then obtain a where "u = [a]" by (cases u) auto
    with True show ?thesis by simp
  next
    case False
    then have "last ?loop = last (drop 1 l)" by simp
    also have "\<dots> = last l" using False by (simp add: last_drop)
    finally show ?thesis using assms(3) by simp
  qed
  then have final: "?loop ! (length ?loop - 1) = last u"
    using ne by (metis last_conv_nth)
  have te: "(?loop ! 0 + ?loop ! (length ?loop - 1)) / 2 = last u"
    unfolding first final by simp
  have "(?loop[0 := last u])[length ?loop - 1 := last u] = ?loop"
    using first final by (metis list_update_id)
  then show ?thesis
    unfolding te_closure_def Let_def te .
qed

lemma palindrome_loop: "rev (rev u @ drop 1 u) = rev u @ drop 1 u"
  by (cases u) simp_all

lemma antipalindrome_loop:
  assumes "y \<noteq> []" "y ! 0 = (0::real)"
  shows "rev (rev y @ drop 1 (map uminus y)) = map uminus (rev y @ drop 1 (map uminus y))"
proof -
  from assms obtain t where y: "y = 0 # t" by (cases y) auto
  show ?thesis unfolding y by (simp add: rev_map o_def)
qed

lemma airfoil_x_first:
  assumes "linspace 0 pi n = Inr beta" "1 \<le> n"
  shows "airfoil_x beta \<noteq> []" "airfoil_x beta ! 0 = 0"
proof -
  from assms have len: "length beta = nat n"
    using linspace_ok[of n 0 pi] by auto
  with assms(2) show ne: "airfoil_x beta \<noteq> []" by (auto simp: airfoil_x_def)
  have "beta ! 0 = 0" using linspace_first[OF assms] .
  moreover have "0 < length beta" using len assms(2) by simp
  ultimately show "airfoil_x beta ! 0 = 0" by (simp add: airfoil_x_def)
qed

lemma airfoil_yt_ends:
  assumes "x \<noteq> []" "x ! 0 = 0"
  shows "last (airfoil_yt t x) = 0" "airfoil_yt t x ! 0 = 0"
proof -
  have len: "0 < length x" using assms(1) by simp
  show "last (airfoil_yt t x) = 0"
    using assms(1) by (simp add: airfoil_yt_def last_conv_nth)
  show "airfoil_yt t x ! 0 = 0"
    using len assms(2) by (simp add: airfoil_yt_def nth_list_update thickness_def)
qed

lemma coords_mirror:
  assumes "rev xs = xs" "rev zs = map uminus zs" "length zs = length xs"
  shows "rev (map (\<lambda>(xv, zv). (xv, 0::real, zv)) (zip xs zs)) =
         map mirror_z (map (\<lambda>(xv, zv). (xv, 0, zv)) (zip xs zs))"
proof -
  have "rev (map (\<lambda>(xv, zv). (xv, 0::real, zv)) (zip xs zs))
          = map (\<lambda>(xv, zv). (xv, 0::real, zv)) (zip (rev xs) (rev zs))"
    using assms(3) by (simp add: rev_map zip_rev)
  also have "\<dots> = map (\<lambda>(xv, zv). (xv, 0::real, zv)) (zip xs (map uminus zs))"
    by (simp only: assms(1,2))
  also have "\<dots> = map mirror_z (map (\<lambda>(xv, zv). (xv, 0, zv)) (zip xs zs))"
    by (simp add: zip_map2 mirror_z_def split_def)
  finally show ?thesis .
qed

lemma symmetric_arrays:
  assumes m: "st_m st = 0" and r: "st_r st = 0" and n: "1 \<le> chord_res self"
  shows "\<exists>beta. linspace 0 pi (chord_res self) = Inr beta \<and>
           airfoil_arrays self st =
             Inr \<lparr>af_x = airfoil_x beta,
                  af_yt = airfoil_yt (st_t st) (airfoil_x beta),
                  af_yc = map (\<lambda>_. 0) (airfoil_x beta),
                  af_dyc_dx = map (\<lambda>_. 0) (airfoil_x beta),
                  af_xu = airfoil_x beta,
                  af_zu = airfoil_yt (st_t st) (airfoil_x beta),
                  af_xl = airfoil_x beta,
                  af_zl = map uminus (airfoil_yt (st_t st) (airfoil_x beta)),
                  af_coords =
                    map (\<lambda>(xv, zv). (xv, 0, zv))
                      (zip (rev (airfoil_x beta) @ drop 1 (airfoil_x beta))
                           (rev (airfoil_yt (st_t st) (airfoil_x beta)) @
                            drop 1 (map uminus (airfoil_yt (st_t st) (airfoil_x beta)))))\<rparr>"
proof -
  from n obtain beta where b: "linspace 0 pi (chord_res self) = Inr beta"
    using linspace_ok[of "chord_res self" 0 pi] by auto
  let ?x = "airfoil_x beta"
  let ?yt = "airfoil_yt (st_t st) ?x"
  note x = airfoil_x_first[OF b n]
  note yt = airfoil_yt_ends[OF x, of "st_t st"]
  have ytne: "?yt \<noteq> []" using x(1) by (metis length_airfoil_yt length_0_conv)
  have len: "length ?yt = length ?x" by simp
  have xl: "te_closure ?x ?x = rev ?x @ drop 1 ?x"
    using te_closure_closed[OF x(1), of ?x] by simp
  have lastneg: "last (map uminus ?yt) = last ?yt"
    using ytne yt(1) by (simp add: last_map)
  have zl: "te_closure ?yt (map uminus ?yt) = rev ?yt @ drop 1 (map uminus ?yt)"
    using te_closure_closed[OF ytne _ lastneg] by simp
  have "airfoil_arrays self st =
             Inr \<lparr>af_x = ?x, af_yt = ?yt, af_yc = map (\<lambda>_. 0) ?x, af_dyc_dx = map (\<lambda>_. 0) ?x,
                  af_xu = ?x, af_zu = ?yt, af_xl = ?x, af_zl = map uminus ?yt,
                  af_coords =
                    map (\<lambda>(xv, zv). (xv, 0, zv))
                      (zip (rev ?x @ drop 1 ?x) (rev ?yt @ drop 1 (map uminus ?yt)))\<rparr>"
    using x(1)
    by (simp add: airfoil_arrays_def b Let_def m r camber_block_symmetric
        arr2_times_sin_zero[OF len] arr2_times_cos_zero[OF len] arr2_zero_right
        arr2_zero_left[OF len] xl zl)
  with b show ?thesis by blast
qed

text \<open>
  Claim C3, amended.  For every airfoil with max camber \<open>m = 0\<close> and reflex \<open>r = 0\<close> (any camber
  position \<open>p\<close>, thickness \<open>t\<close> and resolution \<open>N \<ge> 1\<close>) the profile is generated, its camber
  line is identically zero, its upper and lower surface points are mirror images of each
  other about \<open>z = 0\<close>, and the generated loop read backwards is the loop mirrored about
  \<open>z = 0\<close>.
\<close>

theorem symmetric_airfoil:
  assumes "st_m st = 0" "st_r st = 0" "1 \<le> chord_res self"
  shows "\<exists>a. airfoil_arrays self st = Inr a \<and>
             af_yc a = map (\<lambda>_. 0) (af_x a) \<and>
             af_xu a = af_xl a \<and>
             af_zu a = map uminus (af_zl a) \<and>
             get_airfoil_coords self st = Inr (af_coords a) \<and>
             rev (af_coords a) = map mirror_z (af_coords a)"
proof -
  from symmetric_arrays[OF assms] obtain beta where
    b: "linspace 0 pi (chord_res self) = Inr beta"
    and a: "airfoil_arrays self st =
             Inr \<lparr>af_x = airfoil_x beta,
                  af_yt = airfoil_yt (st_t st) (airfoil_x beta),
                  af_yc = map (\<lambda>_. 0) (airfoil_x beta),
                  af_dyc_dx = map (\<lambda>_. 0) (airfoil_x beta),
                  af_xu = airfoil_x beta,
                  af_zu = airfoil_yt (st_t st) (airfoil_x beta),
                  af_xl = airfoil_x beta,
                  af_zl = map uminus (airfoil_yt (st_t st) (airfoil_x beta)),
                  af_coords =
                    map (\<lambda>(xv, zv). (xv, 0, zv))
                      (zip (rev (airfoil_x beta) @ drop 1 (airfoil_x beta))
                           (rev (airfoil_yt (st_t st) (airfoil_x beta)) @
                            drop 1 (map uminus (airfoil_yt (st_t st) (airfoil_x beta)))))\<rparr>"
    by blast
  let ?x = "airfoil_x beta"
  let ?yt = "airfoil_yt (st_t st) ?x"
  note x = airfoil_x_first[OF b assms(3)]
  note yt = airfoil_yt_ends[OF x, of "st_t st"]
  have ytne: "?yt \<noteq> []" using x(1) by (metis length_airfoil_yt length_0_conv)
  have len: "length (rev ?yt @ drop 1 (map uminus ?yt)) = length (rev ?x @ drop 1 ?x)" by simp
  note mir = coords_mirror[OF palindrome_loop antipalindrome_loop[OF ytne yt(2)] len]
  show ?thesis
    unfolding get_airfoil_coords_def a using mir by (simp add: o_def)
qed

text \<open>
  The root station of Scenario A (NACA 0012) under the default resolution.
\<close>

theorem symmetric_airfoil_witness:
  "st_m scenario_A_root = 0 \<and> st_r scenario_A_root = 0 \<and> 1 \<le> chord_res new_StructuredMesher \<and>
   (\<exists>loop. get_airfoil_coords new_StructuredMesher scenario_A_root = Inr loop \<and>
            rev loop = map mirror_z loop)"
proof -
  have h1: "st_m scenario_A_root = 0" by simp
  have h2: "st_r scenario_A_root = 0" by simp
  have h3: "1 \<le> chord_res new_StructuredMesher" by simp
  from symmetric_airfoil[OF h1 h2 h3] h1 h2 h3 show ?thesis by blast
qed

lemma linspace_pi_3: "linspace 0 pi 3 = Inr [0, pi / 2, pi]"
  by (simp add: linspace_def Let_def upt_rec numeral_eq_Suc)

lemma airfoil_x_3: "airfoil_x [0, pi / 2, pi] = [0, 1 / 2, 1]"
  by (simp add: airfoil_x_def)

lemma airfoil_yt_3: "airfoil_yt t [0, 1 / 2, 1] = [0, thickness t (1 / 2), 0]"
  by (simp add: airfoil_yt_def) (simp add: thickness_def)

lemma coarse_mesher_simps [simp]:
  "chord_res coarse_mesher = 3" "span_res coarse_mesher = 2"
  by (simp_all add: coarse_mesher_def)

lemma reflex_arrays:
  "\<exists>a. airfoil_arrays coarse_mesher reflex_station = Inr a \<and>
       af_yc a = [0, - 1 / 2, 0] \<and>
       af_zu a = [0, - 1 / 2 + thickness 0.12 (1 / 2), 0] \<and>
       af_zl a = [0, - 1 / 2 - thickness 0.12 (1 / 2), 0]"
  by (simp add: airfoil_arrays_def linspace_pi_3 airfoil_x_3 airfoil_yt_3 Let_def
      reflex_station_def camber_block_def arr2_def power2_eq_square power3_eq_cube)

text \<open>
  Claim C3 as stated fails for \<open>m = 0\<close> with reflex \<open>r = 1\<close> at resolution \<open>N = 3\<close>: the camber
  line is \<open>[0, -1/2, 0]\<close>, and the upper surface is not the mirror image of the lower.
\<close>

theorem reflex_camber_counterexample:
  "\<exists>a. airfoil_arrays coarse_mesher reflex_station = Inr a \<and>
       st_m reflex_station = 0 \<and>
       af_yc a = [0, - 1 / 2, 0] \<and>
       af_zu a \<noteq> map uminus (af_zl a)"
proof -
  from reflex_arrays obtain a where
    a: "airfoil_arrays coarse_mesher reflex_station = Inr a"
       "af_yc a = [0, - 1 / 2, 0]"
       "af_zu a = [0, - 1 / 2 + thickness 0.12 (1 / 2), 0]"
       "af_zl a = [0, - 1 / 2 - thickness 0.12 (1 / 2), 0]" by blast
  have m: "st_m reflex_station = 0" by (simp add: reflex_station_def)
  have "af_zu a \<noteq> map uminus (af_zl a)" unfolding a(3,4) by simp
  with a(1,2) m show ?thesis by blast
qed

section \<open>Mirroring\<close>

lemma length_reverse_rows:
  "length xs = d0 * k \<Longrightarrow> length (reverse_rows d0 k xs) = length xs"
  by (induction k arbitrary: xs) auto

lemma reverse_rows_involution:
  "length xs = d0 * k \<Longrightarrow> reverse_rows d0 k (reverse_rows d0 k xs) = xs"
proof (induction k arbitrary: xs)
  case 0
  then show ?case by simp
next
  case (Suc k)
  then have len: "length (drop d0 xs) = d0 * k" by simp
  from Suc.prems have d: "d0 \<le> length xs" by simp
  then have lt: "length (rev (take d0 xs)) = d0" by simp
  have "reverse_rows d0 (Suc k) (reverse_rows d0 (Suc k) xs) =
        rev (take d0 (rev (take d0 xs) @ reverse_rows d0 k (drop d0 xs))) @
        reverse_rows d0 k (drop d0 (rev (take d0 xs) @ reverse_rows d0 k (drop d0 xs)))"
    by simp
  also have "\<dots> = take d0 xs @ reverse_rows d0 k (reverse_rows d0 k (drop d0 xs))"
    using lt by simp
  also have "\<dots> = take d0 xs @ drop d0 xs" using Suc.IH[OF len] by simp
  finally show ?case by simp
qed

lemma reverse_rows_map: "reverse_rows d0 k (map f xs) = map f (reverse_rows d0 k xs)"
  by (induction k arbitrary: xs) (simp_all add: take_map drop_map rev_map)

lemma negate_y_involution [simp]: "negate_y (negate_y v) = v"
  by (cases v) (simp add: negate_y_def)

lemma mesh_map_negate_y_involution [simp]: "mesh_map negate_y (mesh_map negate_y m) = m"
  by (cases m) (simp_all add: mesh_map_def grid_map_def o_def)

lemma flip_faces_involution [simp]: "flip_faces (flip_faces p) = p"
  by (simp add: flip_faces_def o_def)

lemma reflect_involution [simp]: "reflect (reflect p) = p"
  by (simp add: reflect_def o_def)

lemma flip_reflect_commute: "flip_faces (reflect p) = reflect (flip_faces p)"
  by (simp add: flip_faces_def reflect_def)

lemma flip_winding_involution:
  assumes "flip_winding m = Inr m'"
  shows "flip_winding m' = Inr m"
proof (cases m)
  case (Grid g)
  obtain d0 d1 d2 where d: "grid_dimensions g = (d0, d1, d2)" by (cases "grid_dimensions g")
  from assms Grid d have len: "length (grid_points g) = d0 * (d2 * d1)"
    by (auto simp: flip_winding_def split: if_splits)
  from assms Grid d len have m': "m' = Grid (g\<lparr>grid_points := reverse_rows d0 (d2 * d1) (grid_points g)\<rparr>)"
    by (auto simp: flip_winding_def)
  show ?thesis
    unfolding m' Grid
    using d len length_reverse_rows[OF len] reverse_rows_involution[OF len]
    by (simp add: flip_winding_def)
next
  case (Poly p)
  with assms show ?thesis by (auto simp: flip_winding_def)
qed

lemma flip_winding_mesh_map:
  assumes "flip_winding m = Inr m'"
  shows "flip_winding (mesh_map f m) = Inr (mesh_map f m')"
proof (cases m)
  case (Grid g)
  obtain d0 d1 d2 where d: "grid_dimensions g = (d0, d1, d2)" by (cases "grid_dimensions g")
  from assms Grid d have len: "length (grid_points g) = d2 * d1 * d0"
    by (auto simp: flip_winding_def split: if_splits)
  from assms Grid d len have m': "m' = Grid (g\<lparr>grid_points := reverse_rows d0 (d2 * d1) (grid_points g)\<rparr>)"
    by (auto simp: flip_winding_def)
  show ?thesis
    unfolding m' Grid using d len
    by (simp add: flip_winding_def mesh_map_def grid_map_def reverse_rows_map)
next
  case (Poly p)
  with assms show ?thesis by (auto simp: flip_winding_def mesh_map_def)
qed

lemma mirror_part_involution:
  assumes "mirror_part use_solid part = Inr mirrored"
  shows "mirror_part use_solid mirrored = Inr part"
proof (cases use_solid)
  case True
  with assms obtain p where p: "part = Poly p" "mirrored = Poly (flip_faces (reflect p))"
    by (cases part) (auto simp: mirror_part_def)
  show ?thesis unfolding p using True
    by (simp add: mirror_part_def flip_reflect_commute)
next
  case False
  with assms have f: "flip_winding (mesh_map negate_y part) = Inr mirrored"
    by (simp add: mirror_part_def)
  from flip_winding_involution[OF f] have "flip_winding mirrored = Inr (mesh_map negate_y part)" .
  from flip_winding_mesh_map[OF this, of negate_y]
  show ?thesis using False by (simp add: mirror_part_def)
qed

lemma vehicle_mirror_involution:
  assumes "vehicle_mirror solid part = Inr mirrored"
  shows "vehicle_mirror solid mirrored = Inr part"
proof (cases solid)
  case True
  with assms obtain p where p: "part = Poly p" "mirrored = Poly (flip_faces (reflect p))"
    by (cases part) (auto simp: vehicle_mirror_def)
  show ?thesis unfolding p using True
    by (simp add: vehicle_mirror_def flip_reflect_commute)
next
  case False
  with assms show ?thesis by (auto simp: vehicle_mirror_def)
qed

text \<open>
  Claim C6.  The mirror operation is an involution.  Mirroring a part as the rendering
  pipeline does (negate every \<open>y\<close>; flip the face order of a solid, reverse the chordwise
  index order of an open grid) and mirroring the result again gives back the original
  part, points and ordering alike; the same holds for the mirrored instance built by
  \<open>mesh_vehicle\<close>.  The operation is defined on every solid and on every open grid whose point
  count matches its dimensions.
\<close>

theorem mirror_involution:
  "(mirror_part use_solid part = Inr mirrored \<longrightarrow> mirror_part use_solid mirrored = Inr part) \<and>
   (vehicle_mirror use_solid part = Inr mirrored' \<longrightarrow> vehicle_mirror use_solid mirrored' = Inr part) \<and>
   (\<exists>m. mirror_part True (Poly p) = Inr m) \<and>
   (grid_dimensions g = (d0, d1, d2) \<and> length (grid_points g) = d2 * d1 * d0
      \<longrightarrow> (\<exists>m. mirror_part False (Grid g) = Inr m))"
proof -
  have a: "mirror_part use_solid part = Inr mirrored \<longrightarrow> mirror_part use_solid mirrored = Inr part"
    using mirror_part_involution by blast
  have b: "vehicle_mirror use_solid part = Inr mirrored' \<longrightarrow>
           vehicle_mirror use_solid mirrored' = Inr part"
    using vehicle_mirror_involution by blast
  have c: "\<exists>m. mirror_part True (Poly p) = Inr m" by (simp add: mirror_part_def)
  have d: "grid_dimensions g = (d0, d1, d2) \<and> length (grid_points g) = d2 * d1 * d0
             \<longrightarrow> (\<exists>m. mirror_part False (Grid g) = Inr m)"
    by (simp add: mirror_part_def flip_winding_def mesh_map_def grid_map_def)
  from a b c d show ?thesis by blast
qed

lemma mirror_small_grid:
  "mirror_part False (Grid small_grid) =
     Inr (Grid \<lparr>grid_points = [(1, - 1, 0), (0, - 1, 0), (1, - 2, 1), (0, - 2, 0)],
                grid_dimensions = (2, 2, 1)\<rparr>)"
  by (simp add: mirror_part_def flip_winding_def mesh_map_def grid_map_def small_grid_def
      negate_y_def numeral_2_eq_2)

text \<open>
  A grid of two by two points and a triangle, mirrored twice.
\<close>

theorem mirror_involution_witness:
  "mirror_part False (Grid small_grid) =
     Inr (Grid \<lparr>grid_points = [(1, - 1, 0), (0, - 1, 0), (1, - 2, 1), (0, - 2, 0)],
                grid_dimensions = (2, 2, 1)\<rparr>) \<and>
   mirror_part False
     (Grid \<lparr>grid_points = [(1, - 1, 0), (0, - 1, 0), (1, - 2, 1), (0, - 2, 0)],
            grid_dimensions = (2, 2, 1)\<rparr>) = Inr (Grid small_grid) \<and>
   vehicle_mirror False (Grid small_grid) = Inr (Grid (grid_map negate_y small_grid)) \<and>
   vehicle_mirror False (Grid (grid_map negate_y small_grid)) = Inr (Grid small_grid) \<and>
   grid_dimensions small_grid = (2, 2, 1) \<and> length (grid_points small_grid) = 1 * 2 * 2 \<and>
   mirror_part True (Poly small_poly) =
     Inr (Poly \<lparr>poly_points = [(0, - 1, 0), (1, - 1, 0), (0, - 2, 0)], poly_faces = [ [2, 1, 0] ]\<rparr>) \<and>
   mirror_part True
     (Poly \<lparr>poly_points = [(0, - 1, 0), (1, - 1, 0), (0, - 2, 0)], poly_faces = [ [2, 1, 0] ]\<rparr>)
     = Inr (Poly small_poly)"
proof -
  let ?mg = "Grid \<lparr>grid_points = [(1, - 1, 0), (0, - 1, 0), (1, - 2, 1), (0, - 2, 0)],
                    grid_dimensions = (2, 2, 1)\<rparr>"
  let ?mp = "Poly \<lparr>poly_points = [(0, - 1, 0), (1, - 1, 0), (0, - 2, 0)], poly_faces = [ [2, 1, 0] ]\<rparr>"
  have h1: "mirror_part False (Grid small_grid) = Inr ?mg" by (rule mirror_small_grid)
  have h2: "vehicle_mirror False (Grid small_grid) = Inr (Grid (grid_map negate_y small_grid))"
    by (simp add: vehicle_mirror_def mesh_map_def)
  have h3: "grid_dimensions small_grid = (2, 2, 1) \<and> length (grid_points small_grid) = 1 * 2 * 2"
    by (simp add: small_grid_def)
  have h4: "mirror_part True (Poly small_poly) = Inr ?mp"
    by (simp add: mirror_part_def flip_faces_def reflect_def small_poly_def negate_y_def)
  have h5: "vehicle_mirror True (Poly small_poly) = Inr ?mp"
    by (simp add: vehicle_mirror_def flip_faces_def reflect_def small_poly_def negate_y_def)
  from mirror_involution[of False "Grid small_grid" ?mg "Grid (grid_map negate_y small_grid)"
         small_poly small_grid 2 2 1]
       mirror_involution[of True "Poly small_poly" ?mp ?mp small_poly small_grid 2 2 1]
       h1 h2 h3 h4 h5
  show ?thesis by simp
qed

section \<open>The mirrored instance of the assembler\<close>

lemma thickness_half_positive: "0 < thickness 0.12 (1 / 2)"
proof -
  have "(7 / 10) ^ 2 < (1 / 2 :: real)" by (simp add: power2_eq_square)
  then have s: "7 / 10 < sqrt (1 / 2 :: real)" by (rule real_less_rsqrt)
  have "thickness 0.12 (1 / 2) =
          5 * 0.12 * (0.2969 * sqrt (1 / 2) - 0.12170625)"
    by (simp add: thickness_def power2_eq_square power3_eq_cube power4_eq_xxxx)
  also have "\<dots> > 0" using s by simp
  finally show ?thesis .
qed

lemma coarse_root_loop:
  "get_airfoil_coords coarse_mesher scenario_A_root =
     Inr [(1, 0, 0), (1 / 2, 0, thickness 0.12 (1 / 2)), (0, 0, 0),
          (1 / 2, 0, - thickness 0.12 (1 / 2)), (1, 0, 0)]"
proof -
  have m: "st_m scenario_A_root = 0" and r: "st_r scenario_A_root = 0" by simp_all
  have t: "st_t scenario_A_root = 0.12" by (simp add: scenario_A_root_def)
  have n: "1 \<le> chord_res coarse_mesher" by simp
  from symmetric_arrays[OF m r n] obtain beta where
    b: "linspace 0 pi (chord_res coarse_mesher) = Inr beta"
    and a: "airfoil_arrays coarse_mesher scenario_A_root =
             Inr \<lparr>af_x = airfoil_x beta,
                  af_yt = airfoil_yt (st_t scenario_A_root) (airfoil_x beta),
                  af_yc = map (\<lambda>_. 0) (airfoil_x beta),
                  af_dyc_dx = map (\<lambda>_. 0) (airfoil_x beta),
                  af_xu = airfoil_x beta,
                  af_zu = airfoil_yt (st_t scenario_A_root) (airfoil_x beta),
                  af_xl = airfoil_x beta,
                  af_zl = map uminus (airfoil_yt (st_t scenario_A_root) (airfoil_x beta)),
                  af_coords =
                    map (\<lambda>(xv, zv). (xv, 0, zv))
                      (zip (rev (airfoil_x beta) @ drop 1 (airfoil_x beta))
                           (rev (airfoil_yt (st_t scenario_A_root) (airfoil_x beta)) @
                            drop 1 (map uminus
                              (airfoil_yt (st_t scenario_A_root) (airfoil_x beta)))))\<rparr>"
    by blast
  from b have beta: "beta = [0, pi / 2, pi]" by (simp add: linspace_pi_3)
  show ?thesis
    unfolding get_airfoil_coords_def a beta airfoil_x_3 t airfoil_yt_3 by simp
qed

lemma coarse_root_profile:
  "position_profile
     [(1, 0, 0), (1 / 2, 0, thickness 0.12 (1 / 2)), (0, 0, 0),
      (1 / 2, 0, - thickness 0.12 (1 / 2)), (1, 0, 0)] scenario_A_root =
   [(2, 0, 0), (1, 0, 2 * thickness 0.12 (1 / 2)), (0, 0, 0),
    (1, 0, - (2 * thickness 0.12 (1 / 2))), (2, 0, 0)]"
  by (simp add: position_profile_def scenario_A_root_def radians_def Let_def)

lemma reverse_rows_first_row:
  assumes "i < d0" "d0 \<le> length xs"
  shows "reverse_rows d0 (Suc k) xs ! i = xs ! (d0 - Suc i)"
  using assms by (simp add: nth_append rev_nth)

text \<open>
  Claim C5 against \<open>mesh_vehicle\<close>.  For a vehicle with one mirrored surface, meshed open
  at \<open>chord_res = 3\<close> and \<open>span_res = 2\<close>, the mirrored instance that \<open>mesh_vehicle\<close> emits is
  the original grid with every \<open>y\<close> negated and the chordwise order unchanged, whereas the
  rendering pipeline emits, for the same surface, the grid with every \<open>y\<close> negated and the
  chordwise order reversed; the two grids differ.
\<close>

theorem mesh_vehicle_open_mirror_divergence:
  "\<exists>g. mesh_surface sample_kernel coarse_mesher scenario_A_surface False = Inr (Grid g) \<and>
       mesh_vehicle sample_kernel coarse_mesher wing_vehicle False =
         Inr [(''Wing'', Grid g), (''Wing_Mirror'', Grid (grid_map negate_y g))] \<and>
       process_component sample_kernel coarse_mesher (Surface scenario_A_surface)
           \<lparr>solid_view = Some False, flip_normals = Some False\<rparr> True
         = mirror_part False (Grid g) \<and>
       mirror_part False (Grid g) \<noteq> Inr (Grid (grid_map negate_y g))"
proof -
  let ?c = "thickness 0.12 (1 / 2)"
  have h1: "ls_stations scenario_A_surface = [scenario_A_root, scenario_A_tip]" by simp
  have h2: "1 \<le> chord_res coarse_mesher" by simp
  have h3: "2 \<le> span_res coarse_mesher" by simp
  from scenario_A_loops[OF h2] obtain af1 af2 where
    a: "get_airfoil_coords coarse_mesher scenario_A_root = Inr af1"
    and a2: "get_airfoil_coords coarse_mesher scenario_A_tip = Inr af2" by auto
  from two_station_slices[OF h1 a a2 h3, of sample_kernel] obtain g where
    g: "mesh_surface sample_kernel coarse_mesher scenario_A_surface False = Inr (Grid g)"
       "grid_dimensions g = (2 * nat (chord_res coarse_mesher) - 1, nat (span_res coarse_mesher), 1)"
       "length (grid_points g) = (2 * nat (chord_res coarse_mesher) - 1) * nat (span_res coarse_mesher)"
    and f: "first_n (2 * nat (chord_res coarse_mesher) - 1) (grid_points g) =
              map (transform_point scenario_A_surface) (position_profile af1 scenario_A_root)"
    by blast
  have d: "grid_dimensions g = (5, 2, 1)" using g(2) by simp
  have n: "length (grid_points g) = 10" using g(3) by simp
  have af1: "af1 = [(1, 0, 0), (1 / 2, 0, ?c), (0, 0, 0), (1 / 2, 0, - ?c), (1, 0, 0)]"
    using a coarse_root_loop by simp
  have id: "map (transform_point scenario_A_surface) xs = xs" for xs
    by (simp add: transform_point_identity map_idI)
  have slice: "take 5 (grid_points g) =
                 [(2, 0, 0), (1, 0, 2 * ?c), (0, 0, 0), (1, 0, - (2 * ?c)), (2, 0, 0)]"
    using f unfolding id af1 coarse_root_profile by (simp add: first_n_def)
  have p1: "grid_points g ! 1 = (1, 0, 2 * ?c)"
  proof -
    have "grid_points g ! 1 = take 5 (grid_points g) ! 1" by simp
    then show ?thesis unfolding slice by simp
  qed
  have p3: "grid_points g ! 3 = (1, 0, - (2 * ?c))"
  proof -
    have "grid_points g ! 3 = take 5 (grid_points g) ! 3" by simp
    then show ?thesis unfolding slice by (simp add: numeral_3_eq_3)
  qed
  have mv: "mesh_vehicle sample_kernel coarse_mesher wing_vehicle False =
         Inr [(''Wing'', Grid g), (''Wing_Mirror'', Grid (grid_map negate_y g))]"
    by (simp add: mesh_vehicle_def wing_vehicle_def g(1) vehicle_mirror_def mesh_map_def)
  have pc: "process_component sample_kernel coarse_mesher (Surface scenario_A_surface)
           \<lparr>solid_view = Some False, flip_normals = Some False\<rparr> True
         = mirror_part False (Grid g)"
    by (simp add: process_component_def getattr_def g(1) split: sum.splits)
  have mp: "mirror_part False (Grid g) =
              Inr (Grid (g\<lparr>grid_points := reverse_rows 5 2 (map negate_y (grid_points g))\<rparr>))"
    using d n by (simp add: mirror_part_def flip_winding_def mesh_map_def grid_map_def)
  have ne: "reverse_rows 5 2 (map negate_y (grid_points g)) \<noteq> map negate_y (grid_points g)"
  proof
    assume e: "reverse_rows 5 2 (map negate_y (grid_points g)) = map negate_y (grid_points g)"
    have "reverse_rows 5 (Suc 1) (map negate_y (grid_points g)) ! 1
            = map negate_y (grid_points g) ! (5 - Suc 1)"
      by (rule reverse_rows_first_row) (simp_all add: n)
    then have "map negate_y (grid_points g) ! 1 = map negate_y (grid_points g) ! 3"
      using e by (simp add: numeral_2_eq_2)
    then have "negate_y (grid_points g ! 1) = negate_y (grid_points g ! 3)"
      using n by simp
    then have "2 * ?c = - (2 * ?c)" unfolding p1 p3 by (simp add: negate_y_def)
    with thickness_half_positive show False by simp
  qed
  have "mirror_part False (Grid g) \<noteq> Inr (Grid (grid_map negate_y g))"
  proof
    assume "mirror_part False (Grid g) = Inr (Grid (grid_map negate_y g))"
    with mp have "g\<lparr>grid_points := reverse_rows 5 2 (map negate_y (grid_points g))\<rparr>
                    = grid_map negate_y g" by simp
    then have "grid_points (g\<lparr>grid_points := reverse_rows 5 2 (map negate_y (grid_points g))\<rparr>)
                    = grid_points (grid_map negate_y g)" by simp
    then show False using ne by (simp add: grid_map_def)
  qed
  with g(1) mv pc show ?thesis by blast
qed

section \<open>Caps\<close>

text \<open>
  The shape of the lofted grid for any number of stations, and its first and last
  spanwise slices.
\<close>

lemma loft_segment_Inr:
  assumes "loft_segment self a b = Inr (w, rows)"
  shows "w = 2 * nat (chord_res self) - 1" "1 \<le> chord_res self"
    "length rows = nat (span_res self)" "\<forall>r \<in> set rows. length r = w"
proof -
  from assms obtain af1 af2 ts where
    a: "get_airfoil_coords self a = Inr af1" "get_airfoil_coords self b = Inr af2"
       "linspace 0 1 (span_res self) = Inr ts"
    and w: "w = length (position_profile af1 a)"
    and r: "rows = map (\<lambda>ti. map (\<lambda>(u, v). lerp ti u v)
                     (zip (position_profile af1 a) (position_profile af2 b))) ts"
    by (auto simp: loft_segment_def Let_def split: sum.splits)
  note s1 = get_airfoil_coords_Inr[OF a(1)]
  note s2 = get_airfoil_coords_Inr[OF a(2)]
  show "w = 2 * nat (chord_res self) - 1" using w s1(2) by simp
  show "1 \<le> chord_res self" by (rule s1(1))
  show "length rows = nat (span_res self)" using r linspace_Inr[OF a(3)] by simp
  show "\<forall>r \<in> set rows. length r = w" using r w s1(2) s2(2) by auto
qed

lemma loft_stations_Inr:
  "loft_stations self i sts = Inr segs \<Longrightarrow>
     (\<forall>seg \<in> set segs. fst seg = 2 * nat (chord_res self) - 1 \<and>
                        (\<forall>r \<in> set (snd seg). length r = fst seg)) \<and>
     (segs \<noteq> [] \<longrightarrow> 1 \<le> chord_res self) \<and>
     (segs \<noteq> [] \<longrightarrow> i = 0 \<longrightarrow> length (snd (hd segs)) = nat (span_res self))"
proof (induction sts arbitrary: i segs)
  case Nil
  then show ?case by simp
next
  case (Cons st_in sts)
  show ?case
  proof (cases sts)
    case Nil
    with Cons.prems show ?thesis by simp
  next
    case (Cons st_out rest)
    from Cons.prems Cons obtain w rows more_segs where
      seg: "loft_segment self st_in st_out = Inr (w, rows)"
      and rec: "loft_stations self (Suc i) sts = Inr more_segs"
      and segs: "segs = (w, if 0 < i then drop 1 rows else rows) # more_segs"
      by (auto split: sum.splits)
    note s = loft_segment_Inr[OF seg]
    from Cons.IH[OF rec] have ih:
      "\<forall>seg \<in> set more_segs. fst seg = 2 * nat (chord_res self) - 1 \<and>
                              (\<forall>r \<in> set (snd seg). length r = fst seg)" by simp
    have "\<forall>r \<in> set (if 0 < i then drop 1 rows else rows). length r = w"
      using s(4) by (auto dest: in_set_dropD)
    with ih s(1,2,3) show ?thesis unfolding segs by simp
  qed
qed

lemma sum_list_rows:
  assumes "\<forall>r \<in> set rows. length r = w"
  shows "length (concat rows) = w * length rows"
  using assms by (induction rows) simp_all

lemma mesh_surface_open_shape:
  assumes "mesh_surface pv self surface False = Inr (Grid g)"
  shows "\<exists>n_span. grid_dimensions g = (2 * nat (chord_res self) - 1, n_span, 1) \<and>
           length (grid_points g) = (2 * nat (chord_res self) - 1) * n_span \<and>
           1 \<le> chord_res self \<and> nat (span_res self) \<le> n_span"
proof -
  from assms obtain segs n_chord rows where
    ls: "loft_stations self 0 (ls_stations surface) = Inr segs"
    and cc: "concatenate segs = Inr (n_chord, rows)"
    and g: "g = transform_grid \<lparr>grid_points = concat rows,
                                 grid_dimensions = (n_chord, length rows, 1)\<rparr> surface"
    by (auto simp: mesh_surface_def Let_def split: sum.splits prod.splits)
  from cc have ne: "segs \<noteq> []" by (auto simp: concatenate_def)
  note sh = loft_stations_Inr[OF ls]
  from cc ne have nc: "n_chord = fst (hd segs)" and r: "rows = concat (map snd segs)"
    by (cases segs; auto simp: concatenate_def)+
  from sh ne have w: "n_chord = 2 * nat (chord_res self) - 1" and c1: "1 \<le> chord_res self"
    unfolding nc by (cases segs; auto)+
  from sh have all: "\<forall>row \<in> set rows. length row = 2 * nat (chord_res self) - 1"
    unfolding r by auto
  from sh ne have "length (snd (hd segs)) = nat (span_res self)" by simp
  moreover have "length (snd (hd segs)) \<le> length rows"
    unfolding r using ne by (cases segs) simp_all
  ultimately have n: "nat (span_res self) \<le> length rows" by simp
  have len: "length (grid_points g) = (2 * nat (chord_res self) - 1) * length rows"
    unfolding g transform_grid_points using sum_list_rows[OF all] by simp
  have d: "grid_dimensions g = (2 * nat (chord_res self) - 1, length rows, 1)"
    unfolding g using w by simp
  from d len c1 n show ?thesis by blast
qed

lemma mesh_surface_solid_of_open:
  assumes "mesh_surface pv self surface False = Inr (Grid g)"
  shows "mesh_surface pv self surface True =
           Inr (Poly (triangulate_clean pv (cap_surface pv g (fst (grid_dimensions g)))))"
  using assms
  by (auto simp: mesh_surface_def Let_def split: sum.splits prod.splits)

text \<open>
  Claim C4.  Whenever a lifting surface meshes open into a grid, with \<open>span_res \<ge> 1\<close>, its
  solid is built from the extracted surface of that grid by the calls of \<open>_add_cap\<close> fixed
  here, then triangulated and cleaned: when the absolute mean \<open>y\<close> of the first spanwise
  slice exceeds \<open>1e-3\<close>, a cap over the first slice in reversed ring order and then a cap
  over the last spanwise slice; otherwise the cap over the last slice alone.  The root is
  capped exactly when it is off the symmetry plane, the tip always, whatever the library
  does with a cap.
\<close>

theorem root_cap_iff_off_plane:
  assumes "mesh_surface pv self surface False = Inr (Grid g)" "1 \<le> span_res self"
  shows "\<exists>n_chord n_span.
           grid_dimensions g = (n_chord, n_span, 1) \<and> 0 < n_chord \<and> 0 < n_span \<and>
           length (grid_points g) = n_chord * n_span \<and>
           mesh_surface pv self surface True =
             Inr (Poly (triangulate_clean pv
               (if 1 / 1000 < \<bar>mean (map (\<lambda>v. fst (snd v)) (grid_slice g 0))\<bar>
                then add_cap pv (add_cap pv (extract_surface pv g) (grid_slice g 0) True)
                       (grid_slice g (n_span - 1)) False
                else add_cap pv (extract_surface pv g) (grid_slice g (n_span - 1)) False)))"
proof -
  let ?w = "2 * nat (chord_res self) - 1"
  from mesh_surface_open_shape[OF assms(1)] obtain n_span where
    d: "grid_dimensions g = (?w, n_span, 1)"
    and len: "length (grid_points g) = ?w * n_span"
    and c: "1 \<le> chord_res self" and n: "nat (span_res self) \<le> n_span"
    by blast
  from c have w0: "0 < ?w" by simp
  from n assms(2) have n0: "0 < n_span" by simp
  note f = first_slice[OF d len n0]
  note l = last_slice[OF d len w0 n0]
  have cap: "cap_surface pv g ?w =
               (if 1 / 1000 < \<bar>mean (map (\<lambda>v. fst (snd v)) (grid_slice g 0))\<bar>
                then add_cap pv (add_cap pv (extract_surface pv g) (grid_slice g 0) True)
                       (grid_slice g (n_span - 1)) False
                else add_cap pv (extract_surface pv g) (grid_slice g (n_span - 1)) False)"
    unfolding cap_surface_def Let_def f l by simp
  from mesh_surface_solid_of_open[OF assms(1)] d
  have "mesh_surface pv self surface True = Inr (Poly (triangulate_clean pv (cap_surface pv g ?w)))"
    by simp
  with cap d w0 n0 len show ?thesis by auto
qed

lemma shifted_indices:
  "map (\<lambda>i. (a @ r @ rest) ! i) (map (\<lambda>i. i + length a) [0..<length r]) = r"
  by (intro nth_equalityI) (simp_all add: nth_append)

lemma shifted_indices_rev:
  "map (\<lambda>i. (a @ r @ rest) ! i) (map (\<lambda>i. i + length a) (rev [0..<length r])) = rev r"
proof -
  have "map (\<lambda>i. (a @ r @ rest) ! i) (map (\<lambda>i. i + length a) (rev [0..<length r]))
          = rev (map (\<lambda>i. (a @ r @ rest) ! i) (map (\<lambda>i. i + length a) [0..<length r]))"
    by (simp add: rev_map)
  then show ?thesis by (simp only: shifted_indices)
qed

lemma sample_add_cap:
  "add_cap sample_kernel poly ring flip =
     \<lparr>poly_points = poly_points poly @ ring,
      poly_faces = poly_faces poly @
        [map (\<lambda>i. i + length (poly_points poly))
           (if flip then rev [0..<length ring] else [0..<length ring])]\<rparr>"
  by (simp add: add_cap_def sample_kernel_def Let_def)

lemma sample_kernel_simps [simp]:
  "extract_surface sample_kernel g = \<lparr>poly_points = grid_points g, poly_faces = []\<rparr>"
  "triangulate_clean sample_kernel p = p"
  "truthy sample_kernel m"
  "refine sample_kernel m = m"
  by (simp_all add: sample_kernel_def)

lemma sample_tip_cap:
  "map (face_coords (add_cap sample_kernel (extract_surface sample_kernel g) tip False))
       (poly_faces (add_cap sample_kernel (extract_surface sample_kernel g) tip False)) = [tip]"
  using shifted_indices[of "grid_points g" tip "[]"]
  by (simp add: sample_add_cap face_coords_def)

lemma sample_both_caps:
  "map (face_coords (add_cap sample_kernel
                       (add_cap sample_kernel (extract_surface sample_kernel g) ring True)
                       tip False))
       (poly_faces (add_cap sample_kernel
                       (add_cap sample_kernel (extract_surface sample_kernel g) ring True)
                       tip False)) = [rev ring, tip]"
  using shifted_indices_rev[of "grid_points g" ring tip]
        shifted_indices[of "grid_points g @ ring" tip "[]"]
  by (simp add: sample_add_cap face_coords_def)

lemma offset_surface_simps [simp]:
  "ls_stations offset_surface = [scenario_A_root, scenario_A_tip]"
  "ls_orientation offset_surface = (0, 0, 0)"
  "ls_position offset_surface = (0, 1, 0)"
  by (simp_all add: offset_surface_def new_LiftingSurface_def)

lemma root_slice_mean:
  assumes st: "ls_stations surface = [scenario_A_root, scenario_A_tip]"
    and o: "ls_orientation surface = (0, 0, 0)" and p: "ls_position surface = (0, y, 0)"
  shows "\<exists>g. mesh_surface sample_kernel new_StructuredMesher surface False = Inr (Grid g) \<and>
             grid_dimensions g = (59, 15, 1) \<and>
             mean (map (\<lambda>v. fst (snd v)) (grid_slice g 0)) = y"
proof -
  have h3: "2 \<le> span_res new_StructuredMesher" by simp
  from scenario_A_loops[of new_StructuredMesher] obtain af1 af2 where
    a: "get_airfoil_coords new_StructuredMesher scenario_A_root = Inr af1"
       "get_airfoil_coords new_StructuredMesher scenario_A_tip = Inr af2" by auto
  from two_station_slices[OF st a h3, of sample_kernel] obtain g where
    g: "mesh_surface sample_kernel new_StructuredMesher surface False = Inr (Grid g)"
       "grid_dimensions g =
          (2 * nat (chord_res new_StructuredMesher) - 1, nat (span_res new_StructuredMesher), 1)"
       "length (grid_points g) =
          (2 * nat (chord_res new_StructuredMesher) - 1) * nat (span_res new_StructuredMesher)"
    and f: "first_n (2 * nat (chord_res new_StructuredMesher) - 1) (grid_points g) =
              map (transform_point surface) (position_profile af1 scenario_A_root)"
    by blast
  have d: "grid_dimensions g = (59, 15, 1)" using g(2) by simp
  have len: "length (grid_points g) = 59 * 15" using g(3) by simp
  have sl: "first_n 59 (grid_points g) = grid_slice g 0"
    by (rule first_slice[OF d len]) simp
  have tp: "transform_point surface = vadd (0, y, 0)"
    by (rule ext) (simp add: transform_point_def o p)
  have f': "grid_slice g 0 = map (vadd (0, y, 0)) (position_profile af1 scenario_A_root)"
    using f unfolding tp sl[symmetric] by simp
  have n1: "position_profile af1 scenario_A_root \<noteq> []"
    using loop_nonempty[OF a(1)] by (simp add: position_profile_def Let_def)
  have ys: "\<forall>w \<in> set (position_profile af1 scenario_A_root). fst (snd (vadd (0, y, 0) w)) = y"
  proof
    fix w assume w: "w \<in> set (position_profile af1 scenario_A_root)"
    from position_profile_y[OF get_airfoil_coords_Inr(3)[OF a(1)] w]
    have "fst (snd w) = 0" by simp
    then show "fst (snd (vadd (0, y, 0) w)) = y" by (cases w) simp
  qed
  have m: "mean (map (\<lambda>v. fst (snd v)) (grid_slice g 0)) = y"
    unfolding f' using mean_constant[OF n1 ys] by (simp add: o_def)
  from g(1) d m show ?thesis by blast
qed

text \<open>
  The surface of Scenario A has its root on the symmetry plane and gets the tip cap only;
  the same surface moved by one unit along \<open>y\<close> gets both caps.  With the sample library
  the polygons of the solid, read as coordinates, are the capped rings.
\<close>

theorem root_cap_iff_off_plane_witness:
  "(\<exists>g p. mesh_surface sample_kernel new_StructuredMesher scenario_A_surface False = Inr (Grid g) \<and>
          1 \<le> span_res new_StructuredMesher \<and>
          mesh_surface sample_kernel new_StructuredMesher scenario_A_surface True = Inr (Poly p) \<and>
          mean (map (\<lambda>v. fst (snd v)) (grid_slice g 0)) = 0 \<and>
          map (face_coords p) (poly_faces p) = [grid_slice g 14]) \<and>
   (\<exists>g p. mesh_surface sample_kernel new_StructuredMesher offset_surface False = Inr (Grid g) \<and>
          1 \<le> span_res new_StructuredMesher \<and>
          mesh_surface sample_kernel new_StructuredMesher offset_surface True = Inr (Poly p) \<and>
          mean (map (\<lambda>v. fst (snd v)) (grid_slice g 0)) = 1 \<and>
          map (face_coords p) (poly_faces p) = [rev (grid_slice g 0), grid_slice g 14])"
proof -
  have sr: "1 \<le> span_res new_StructuredMesher" by simp
  have on_plane: "\<exists>g p. mesh_surface sample_kernel new_StructuredMesher scenario_A_surface False
            = Inr (Grid g) \<and>
          1 \<le> span_res new_StructuredMesher \<and>
          mesh_surface sample_kernel new_StructuredMesher scenario_A_surface True = Inr (Poly p) \<and>
          mean (map (\<lambda>v. fst (snd v)) (grid_slice g 0)) = 0 \<and>
          map (face_coords p) (poly_faces p) = [grid_slice g 14]"
  proof -
    from root_slice_mean[of scenario_A_surface 0] obtain g where
      g: "mesh_surface sample_kernel new_StructuredMesher scenario_A_surface False = Inr (Grid g)"
         "grid_dimensions g = (59, 15, 1)"
         "mean (map (\<lambda>v. fst (snd v)) (grid_slice g 0)) = 0" by auto
    from root_cap_iff_off_plane[OF g(1) sr] g(2,3)
    have s: "mesh_surface sample_kernel new_StructuredMesher scenario_A_surface True =
               Inr (Poly (add_cap sample_kernel (extract_surface sample_kernel g)
                            (grid_slice g 14) False))"
      by (simp del: sample_kernel_simps(1) add: sample_kernel_simps(2))
    note c = sample_tip_cap[of g "grid_slice g 14"]
    show ?thesis
      by (rule exI[of _ g],
          rule exI[of _ "add_cap sample_kernel (extract_surface sample_kernel g)
                           (grid_slice g 14) False"])
         (intro conjI g(1) sr s g(3) c)
  qed
  have off_plane: "\<exists>g p. mesh_surface sample_kernel new_StructuredMesher offset_surface False
            = Inr (Grid g) \<and>
          1 \<le> span_res new_StructuredMesher \<and>
          mesh_surface sample_kernel new_StructuredMesher offset_surface True = Inr (Poly p) \<and>
          mean (map (\<lambda>v. fst (snd v)) (grid_slice g 0)) = 1 \<and>
          map (face_coords p) (poly_faces p) = [rev (grid_slice g 0), grid_slice g 14]"
  proof -
    from root_slice_mean[of offset_surface 1] obtain g where
      g: "mesh_surface sample_kernel new_StructuredMesher offset_surface False = Inr (Grid g)"
         "grid_dimensions g = (59, 15, 1)"
         "mean (map (\<lambda>v. fst (snd v)) (grid_slice g 0)) = 1" by auto
    from root_cap_iff_off_plane[OF g(1) sr] g(2,3)
    have s: "mesh_surface sample_kernel new_StructuredMesher offset_surface True =
               Inr (Poly (add_cap sample_kernel
                            (add_cap sample_kernel (extract_surface sample_kernel g)
                               (grid_slice g 0) True)
                            (grid_slice g 14) False))"
      by (simp del: sample_kernel_simps(1) add: sample_kernel_simps(2))
    note c = sample_both_caps[of g "grid_slice g 0" "grid_slice g 14"]
    show ?thesis
      by (rule exI[of _ g],
          rule exI[of _ "add_cap sample_kernel
                            (add_cap sample_kernel (extract_surface sample_kernel g)
                               (grid_slice g 0) True)
                            (grid_slice g 14) False"])
         (intro conjI g(1) sr s g(3) c)
  qed
  from on_plane off_plane show ?thesis by blast
qed

section \<open>Progress of the union\<close>

lemma py_int_mono: "0 \<le> x \<Longrightarrow> x \<le> y \<Longrightarrow> py_int x \<le> py_int y"
  by (simp add: py_int_def floor_mono)

lemma py_int_nonneg: "0 \<le> x \<Longrightarrow> 0 \<le> py_int x"
  by (simp add: py_int_def)

lemma py_int_less: "0 \<le> x \<Longrightarrow> x < real_of_int k \<Longrightarrow> py_int x < k"
  by (simp add: py_int_def floor_less_iff)

lemma fraction_mono:
  "i \<le> j \<Longrightarrow> 0 \<le> c \<Longrightarrow> real i / real n * c \<le> real j / real n * c"
  by (intro mult_right_mono divide_right_mono) simp_all

lemma fraction_less:
  assumes "i < n" "0 < c"
  shows "real i / real n * c < c"
proof -
  from assms(1) have "real i / real n < 1" by simp
  from mult_strict_right_mono[OF this assms(2)] show ?thesis by simp
qed

lemma refine_percent_mono:
  "i \<le> j \<Longrightarrow> 10 + py_int (real i / real n * 30) \<le> 10 + py_int (real j / real n * 30)"
  using py_int_mono[OF _ fraction_mono[of i j 30 n]] by simp

lemma merge_percent_mono:
  "i \<le> j \<Longrightarrow> 40 + py_int (real i / real n * 50) \<le> 40 + py_int (real j / real n * 50)"
  using py_int_mono[OF _ fraction_mono[of i j 50 n]] by simp

lemma refine_percent_bounds:
  assumes "i < n"
  shows "10 \<le> 10 + py_int (real i / real n * 30)" "10 + py_int (real i / real n * 30) < 40"
proof -
  show "10 \<le> 10 + py_int (real i / real n * 30)" using py_int_nonneg[of "real i / real n * 30"] by simp
  have "py_int (real i / real n * 30) < 30"
    using py_int_less[of "real i / real n * 30" 30] fraction_less[OF assms, of 30] by simp
  then show "10 + py_int (real i / real n * 30) < 40" by simp
qed

lemma merge_percent_bounds:
  assumes "i < n"
  shows "40 \<le> 40 + py_int (real i / real n * 50)" "40 + py_int (real i / real n * 50) < 90"
proof -
  show "40 \<le> 40 + py_int (real i / real n * 50)" using py_int_nonneg[of "real i / real n * 50"] by simp
  have "py_int (real i / real n * 50) < 50"
    using py_int_less[of "real i / real n * 50" 50] fraction_less[OF assms, of 50] by simp
  then show "40 + py_int (real i / real n * 50) < 90" by simp
qed

lemma refine_loop_percents:
  assumes "i + length blocks \<le> count"
  shows "sorted (fst (refine_loop pv count i blocks)) \<and>
         (\<forall>p \<in> set (fst (refine_loop pv count i blocks)).
            10 + py_int (real i / real count * 30) \<le> p \<and> p < 40)"
  using assms
proof (induction blocks arbitrary: i)
  case Nil
  then show ?case by simp
next
  case (Cons block rest)
  then have le: "Suc i + length rest \<le> count" and lt: "i < count" by simp_all
  obtain percents solids where rl: "refine_loop pv count (Suc i) rest = (percents, solids)"
    by (cases "refine_loop pv count (Suc i) rest")
  from Cons.IH[OF le] rl have s: "sorted percents"
    and b: "\<forall>p \<in> set percents. 10 + py_int (real (Suc i) / real count * 30) \<le> p \<and> p < 40"
    by simp_all
  have step: "10 + py_int (real i / real count * 30) \<le> 10 + py_int (real (Suc i) / real count * 30)"
    by (rule refine_percent_mono) simp
  from b step have b': "\<forall>p \<in> set percents. 10 + py_int (real i / real count * 30) \<le> p \<and> p < 40"
    by fastforce
  show ?case
  proof (cases block)
    case None
    with rl s b' show ?thesis by simp
  next
    case (Some m)
    with rl s b' refine_percent_bounds(2)[OF lt] show ?thesis by simp
  qed
qed

lemma merge_loop_percents:
  assumes "i + length rest \<le> n"
  shows "sorted (fst (merge_loop pv n i unified rest)) \<and>
         (\<forall>p \<in> set (fst (merge_loop pv n i unified rest)).
            40 + py_int (real i / real n * 50) \<le> p \<and> p < 90)"
  using assms
proof (induction rest arbitrary: i unified)
  case Nil
  then show ?case by simp
next
  case (Cons solid rest)
  then have le: "Suc i + length rest \<le> n" and lt: "i < n" by simp_all
  let ?u = "case boolean_union pv unified solid of Some u \<Rightarrow> u | None \<Rightarrow> merge pv unified solid"
  obtain percents result where ml: "merge_loop pv n (Suc i) ?u rest = (percents, result)"
    by (cases "merge_loop pv n (Suc i) ?u rest")
  from Cons.IH[OF le, of ?u] ml have s: "sorted percents"
    and b: "\<forall>p \<in> set percents. 40 + py_int (real (Suc i) / real n * 50) \<le> p \<and> p < 90"
    by simp_all
  have step: "40 + py_int (real i / real n * 50) \<le> 40 + py_int (real (Suc i) / real n * 50)"
    by (rule merge_percent_mono) simp
  from b step have b': "\<forall>p \<in> set percents. 40 + py_int (real i / real n * 50) \<le> p \<and> p < 90"
    by fastforce
  from ml s b' merge_percent_bounds(2)[OF lt] show ?case by (simp add: Let_def)
qed

lemma union_blocks_percents:
  "sorted (fst (union_blocks pv multiblock)) \<and>
   (\<forall>p \<in> set (fst (union_blocks pv multiblock)). 10 \<le> p \<and> p < 90)"
proof (cases "multiblock = []")
  case True
  then show ?thesis by (simp add: union_blocks_def)
next
  case False
  obtain percents solids where rl:
    "refine_loop pv (length multiblock) 0 multiblock = (percents, solids)"
    by (cases "refine_loop pv (length multiblock) 0 multiblock")
  from refine_loop_percents[of 0 multiblock "length multiblock" pv] rl
  have s1: "sorted percents" and b1: "\<forall>p \<in> set percents. 10 \<le> p \<and> p < 40"
    using py_int_nonneg[of "real 0 / real (length multiblock) * 30"] by fastforce+
  show ?thesis
  proof (cases "solids = [] \<or> None \<in> set solids")
    case True
    with False rl have "fst (union_blocks pv multiblock) = percents"
      by (auto simp: union_blocks_def)
    moreover have "\<forall>p \<in> set percents. 10 \<le> p \<and> p < 90" using b1 by fastforce
    ultimately show ?thesis using s1 by simp
  next
    case ok: False
    let ?sorted = "sort_key (\<lambda>m. - int (n_cells m)) (map the solids)"
    have ne: "?sorted \<noteq> []" using ok by (metis length_0_conv length_map length_sort)
    then have len: "1 + length (tl ?sorted) \<le> length ?sorted" by (cases ?sorted) simp_all
    obtain later unified where ml:
      "merge_loop pv (length ?sorted) 1 (hd ?sorted) (tl ?sorted) = (later, unified)"
      by (cases "merge_loop pv (length ?sorted) 1 (hd ?sorted) (tl ?sorted)")
    from merge_loop_percents[OF len, of pv "hd ?sorted"] ml
    have s2: "sorted later"
      and b2': "\<forall>p \<in> set later. 40 + py_int (real 1 / real (length ?sorted) * 50) \<le> p \<and> p < 90"
      by simp_all
    have "0 \<le> py_int (real 1 / real (length ?sorted) * 50)"
      by (rule py_int_nonneg) simp
    with b2' have b2: "\<forall>p \<in> set later. 40 \<le> p \<and> p < 90" by fastforce
    have eq: "union_blocks pv multiblock = (percents @ later, Inr unified)"
      using False ok rl ml by (simp add: union_blocks_def Let_def)
    have "sorted (percents @ later)"
      using s1 s2 b1 b2 by (fastforce simp: sorted_append)
    moreover have "\<forall>p \<in> set (percents @ later). 10 \<le> p \<and> p < 90"
      using b1 b2 by fastforce
    ultimately show ?thesis unfolding eq by simp
  qed
qed

lemma run_heavy_union_percents:
  "sorted (fst (run_heavy_union pv mesher vehicle)) \<and>
   hd (fst (run_heavy_union pv mesher vehicle)) = 10 \<and>
   (\<forall>p \<in> set (fst (run_heavy_union pv mesher vehicle)). 10 \<le> p \<and> p < 90)"
proof (cases "mesh_vehicle pv mesher vehicle True")
  case (Inl e)
  then show ?thesis by (simp add: run_heavy_union_def)
next
  case (Inr multiblock)
  let ?blocks = "map (\<lambda>(name, block). if truthy pv block then Some block else None) multiblock"
  obtain percents result where ub: "union_blocks pv ?blocks = (percents, result)"
    by (cases "union_blocks pv ?blocks")
  from union_blocks_percents[of pv ?blocks] ub
  have "sorted percents" "\<forall>p \<in> set percents. 10 \<le> p \<and> p < 90" by simp_all
  then show ?thesis using Inr ub by (simp add: run_heavy_union_def)
qed

lemma run_heavy_union_nonempty: "fst (run_heavy_union pv mesher vehicle) \<noteq> []"
  by (simp add: run_heavy_union_def split: sum.splits prod.splits)

text \<open>
  Claim C7, amended.  The percent values that \<open>run_heavy_union\<close> passes to
  \<open>progress_callback\<close> are monotonically non-decreasing, the first is \<open>10\<close>, and every value,
  the last one included, is at least \<open>10\<close> and below \<open>90\<close>: the value \<open>100\<close> is never reported.
\<close>

theorem progress_percents:
  "sorted (fst (run_heavy_union pv mesher vehicle)) \<and>
   hd (fst (run_heavy_union pv mesher vehicle)) = 10 \<and>
   (\<forall>p \<in> set (fst (run_heavy_union pv mesher vehicle)). 10 \<le> p \<and> p < 90) \<and>
   last (fst (run_heavy_union pv mesher vehicle)) \<noteq> 100"
proof -
  note p = run_heavy_union_percents[of pv mesher vehicle]
  have "last (fst (run_heavy_union pv mesher vehicle)) \<in> set (fst (run_heavy_union pv mesher vehicle))"
    using run_heavy_union_nonempty by (rule last_in_set)
  with p have "last (fst (run_heavy_union pv mesher vehicle)) < 90" by blast
  with p show ?thesis by simp
qed

lemma merge_loop_percent_values:
  "fst (merge_loop pv n i unified rest) =
     map (\<lambda>j. 40 + py_int (real j / real n * 50)) [i..<i + length rest]"
proof (induction rest arbitrary: i unified)
  case Nil
  then show ?case by simp
next
  case (Cons solid rest)
  let ?u = "case boolean_union pv unified solid of Some u \<Rightarrow> u | None \<Rightarrow> merge pv unified solid"
  have "fst (merge_loop pv n i unified (solid # rest)) =
          (40 + py_int (real i / real n * 50)) # fst (merge_loop pv n (Suc i) ?u rest)"
    by (simp add: Let_def split: prod.splits)
  also have "\<dots> = (40 + py_int (real i / real n * 50)) #
                    map (\<lambda>j. 40 + py_int (real j / real n * 50)) [Suc i..<Suc (i + length rest)]"
    by (simp only: Cons.IH add_Suc)
  also have "\<dots> = map (\<lambda>j. 40 + py_int (real j / real n * 50)) [i..<Suc (i + length rest)]"
  proof -
    have "[i..<Suc (i + length rest)] = i # [Suc i..<Suc (i + length rest)]"
      by (rule upt_conv_Cons) simp
    then show ?thesis by (simp only: list.map)
  qed
  also have "\<dots> = map (\<lambda>j. 40 + py_int (real j / real n * 50)) [i..<i + length (solid # rest)]"
    by (simp only: list.size add_Suc_right) simp
  finally show ?case .
qed

lemma sample_cap_surface_points:
  "\<exists>caps. poly_points (cap_surface sample_kernel g n) = grid_points g @ caps"
  by (simp add: cap_surface_def Let_def sample_add_cap)

lemma fin_solid:
  "\<exists>p. mesh_surface sample_kernel new_StructuredMesher (fin_at name y) True = Inr (Poly p) \<and>
       poly_points p \<noteq> []"
proof -
  have h1: "ls_stations (fin_at name y) = [scenario_A_root, scenario_A_tip]"
    by (simp add: fin_at_def new_LiftingSurface_def)
  have h3: "2 \<le> span_res new_StructuredMesher" by simp
  from scenario_A_loops[of new_StructuredMesher] obtain af1 af2 where
    a: "get_airfoil_coords new_StructuredMesher scenario_A_root = Inr af1"
       "get_airfoil_coords new_StructuredMesher scenario_A_tip = Inr af2" by auto
  from two_station_slices[OF h1 a h3, of sample_kernel] obtain g where
    g: "mesh_surface sample_kernel new_StructuredMesher (fin_at name y) False = Inr (Grid g)"
       "length (grid_points g) =
          (2 * nat (chord_res new_StructuredMesher) - 1) * nat (span_res new_StructuredMesher)"
    by blast
  let ?p = "cap_surface sample_kernel g (fst (grid_dimensions g))"
  from mesh_surface_solid_of_open[OF g(1)]
  have s: "mesh_surface sample_kernel new_StructuredMesher (fin_at name y) True = Inr (Poly ?p)"
    by simp
  from sample_cap_surface_points[of g "fst (grid_dimensions g)"] obtain caps where
    "poly_points ?p = grid_points g @ caps" by auto
  moreover have "grid_points g \<noteq> []" using g(2) by auto
  ultimately have "poly_points ?p \<noteq> []" by simp
  with s show ?thesis by blast
qed

lemma three_fin_union:
  "\<exists>m. run_heavy_union sample_kernel new_StructuredMesher three_fin_vehicle
         = ([10, 10, 20, 30, 56, 73], Inr m)"
proof -
  from fin_solid[of "''Fin1''" 10] obtain p1 where
    p1: "mesh_surface sample_kernel new_StructuredMesher (fin_at ''Fin1'' 10) True = Inr (Poly p1)"
        "poly_points p1 \<noteq> []" by blast
  from fin_solid[of "''Fin2''" 20] obtain p2 where
    p2: "mesh_surface sample_kernel new_StructuredMesher (fin_at ''Fin2'' 20) True = Inr (Poly p2)"
        "poly_points p2 \<noteq> []" by blast
  from fin_solid[of "''Fin3''" 30] obtain p3 where
    p3: "mesh_surface sample_kernel new_StructuredMesher (fin_at ''Fin3'' 30) True = Inr (Poly p3)"
        "poly_points p3 \<noteq> []" by blast
  have fin: "ls_mirrored (fin_at name y) = False" "ls_name (fin_at name y) = name" for name y
    by (simp_all add: fin_at_def new_LiftingSurface_def)
  have mv: "mesh_vehicle sample_kernel new_StructuredMesher three_fin_vehicle True =
              Inr [(''Fin1'', Poly p1), (''Fin2'', Poly p2), (''Fin3'', Poly p3)]"
    by (simp add: mesh_vehicle_def three_fin_vehicle_def p1 p2 p3 fin)
  have tr: "truthy sample_kernel m" for m
    by (simp add: sample_kernel_def)
  have ms: "make_solid sample_kernel (Some (Poly p)) = Some (Poly p)" if "poly_points p \<noteq> []" for p
    using that by (simp add: make_solid_def n_points_def sample_kernel_def)
  have rl: "refine_loop sample_kernel 3 0 [Some (Poly p1), Some (Poly p2), Some (Poly p3)] =
              ([10, 20, 30], [Some (Poly p1), Some (Poly p2), Some (Poly p3)])"
    by (simp add: ms p1 p2 p3 py_int_def)
  let ?sorted = "sort_key (\<lambda>m. - int (n_cells m)) [Poly p1, Poly p2, Poly p3]"
  have len: "length ?sorted = 3" by (simp only: length_sort) simp
  then have lt: "length (tl ?sorted) = 2" by simp
  have later: "fst (merge_loop sample_kernel 3 1 (hd ?sorted) (tl ?sorted)) = [56, 73]"
    unfolding merge_loop_percent_values lt
    by (simp add: upt_rec py_int_def)
  obtain ps u where ml: "merge_loop sample_kernel 3 1 (hd ?sorted) (tl ?sorted) = (ps, u)"
    by (cases "merge_loop sample_kernel 3 1 (hd ?sorted) (tl ?sorted)")
  with later have ps: "ps = [56, 73]" by simp
  have ub: "union_blocks sample_kernel [Some (Poly p1), Some (Poly p2), Some (Poly p3)] =
              ([10, 20, 30, 56, 73], Inr u)"
    using rl ml ps len by (simp add: union_blocks_def Let_def)
  have "run_heavy_union sample_kernel new_StructuredMesher three_fin_vehicle =
          ([10, 10, 20, 30, 56, 73], Inr u)"
    by (simp add: run_heavy_union_def mv ub tr)
  then show ?thesis by blast
qed

text \<open>
  Claim C7 as stated fails for a vehicle of three separate fins: the union completes, the
  reported percent values are \<open>10, 10, 20, 30, 56, 73\<close>, and the last one is \<open>73\<close>, not \<open>100\<close>.
\<close>

theorem progress_never_100_counterexample:
  "fst (run_heavy_union sample_kernel new_StructuredMesher three_fin_vehicle)
     = [10, 10, 20, 30, 56, 73] \<and>
   (\<exists>m. snd (run_heavy_union sample_kernel new_StructuredMesher three_fin_vehicle) = Inr m) \<and>
   last (fst (run_heavy_union sample_kernel new_StructuredMesher three_fin_vehicle)) = 73"
proof -
  from three_fin_union obtain m where
    "run_heavy_union sample_kernel new_StructuredMesher three_fin_vehicle
       = ([10, 10, 20, 30, 56, 73], Inr m)" ..
  then show ?thesis by simp
qed

text \<open>
  The percent values of a union of three fins, among them \<open>73\<close>.
\<close>

theorem progress_percents_witness:
  "fst (run_heavy_union sample_kernel new_StructuredMesher three_fin_vehicle)
     = [10, 10, 20, 30, 56, 73] \<and>
   sorted (fst (run_heavy_union sample_kernel new_StructuredMesher three_fin_vehicle)) \<and>
   hd (fst (run_heavy_union sample_kernel new_StructuredMesher three_fin_vehicle)) = 10 \<and>
   last (fst (run_heavy_union sample_kernel new_StructuredMesher three_fin_vehicle)) \<noteq> 100 \<and>
   (10 :: int) \<le> 73 \<and> (73 :: int) < 90"
proof -
  have e: "fst (run_heavy_union sample_kernel new_StructuredMesher three_fin_vehicle)
          = [10, 10, 20, 30, 56, 73]"
    using three_fin_union by auto
  from progress_percents[of sample_kernel new_StructuredMesher three_fin_vehicle]
  have "sorted (fst (run_heavy_union sample_kernel new_StructuredMesher three_fin_vehicle))"
    and "hd (fst (run_heavy_union sample_kernel new_StructuredMesher three_fin_vehicle)) = 10"
    and "last (fst (run_heavy_union sample_kernel new_StructuredMesher three_fin_vehicle)) \<noteq> 100"
    by blast+
  with e show ?thesis by simp
qed

end
